theory Spec2Isabelle
  imports Main
begin

section \<open>JavaScript values\<close>

text \<open>
  A JavaScript string is a sequence of UTF-16 code units; each unit is kept as a natural
  number, so that characters beyond Latin-1 (which \<open>btoa\<close> rejects) can be written.
  \<open>S\<close> turns an ASCII literal of the source into such a string.
\<close>

type_synonym jsstring = "nat list"

definition S :: "string \<Rightarrow> jsstring" where
  "S cs = map of_char cs"

text \<open>
  The JSON-like values the program passes around. \<open>JNum\<close> holds the integer-valued
  numbers only. A value that may be \<open>undefined\<close> is a \<open>json option\<close>.
  The keys of an object are distinct; \<open>get_prop\<close> reads a property.
\<close>

datatype json =
    JNull
  | JBool bool
  | JNum int
  | JString jsstring
  | JArray "json list"
  | JObject "(jsstring \<times> json) list"

datatype jserror = JSError (error_name: string) (message: jsstring)

fun truthy :: "json \<Rightarrow> bool" where
  "truthy JNull = False"
| "truthy (JBool b) = b"
| "truthy (JNum n) = (n \<noteq> 0)"
| "truthy (JString s) = (s \<noteq> [])"
| "truthy (JArray xs) = True"
| "truthy (JObject kvs) = True"

fun truthy_u :: "json option \<Rightarrow> bool" where
  "truthy_u None = False"
| "truthy_u (Some v) = truthy v"

fun get_prop :: "json \<Rightarrow> jsstring \<Rightarrow> json option" where
  "get_prop (JObject kvs) k = map_of kvs k"
| "get_prop v k = None"

fun decimal :: "nat \<Rightarrow> jsstring" where
  "decimal n = (if n < 10 then [48 + n] else decimal (n div 10) @ [48 + n mod 10])"

declare decimal.simps [simp del]

fun join_comma :: "jsstring list \<Rightarrow> jsstring" where
  "join_comma [] = []"
| "join_comma [x] = x"
| "join_comma (x # y # ys) = x @ S '','' @ join_comma (y # ys)"

text \<open>The conversion to a string that template literals, \<open>atob\<close> and \<open>setItem\<close> apply.\<close>

fun ToString :: "json \<Rightarrow> jsstring" where
  "ToString JNull = S ''null''"
| "ToString (JBool b) = (if b then S ''true'' else S ''false'')"
| "ToString (JNum n) = (if n < 0 then S ''-'' @ decimal (nat (- n)) else decimal (nat n))"
| "ToString (JString s) = s"
| "ToString (JArray xs) =
     join_comma (map (\<lambda>x. if x = JNull then [] else ToString x) xs)"
| "ToString (JObject kvs) = S ''[object Object]''"

fun ToString_u :: "json option \<Rightarrow> jsstring" where
  "ToString_u None = S ''undefined''"
| "ToString_u (Some v) = ToString v"

text \<open>\<open>String.prototype.includes\<close>: the pattern occurs as a contiguous run.\<close>

fun starts_with :: "jsstring \<Rightarrow> jsstring \<Rightarrow> bool" where
  "starts_with s [] = True"
| "starts_with [] (p # ps) = False"
| "starts_with (c # cs) (p # ps) = (c = p \<and> starts_with cs ps)"

fun includes_js :: "jsstring \<Rightarrow> jsstring \<Rightarrow> bool" where
  "includes_js [] pat = (pat = [])"
| "includes_js (c # cs) pat = (starts_with (c # cs) pat \<or> includes_js cs pat)"

section \<open>The browser platform and the world outside the program\<close>

text \<open>
  A request as \<open>makeRequest\<close> hands it to \<open>fetch\<close>: the URL, the method, the
  \<open>Authorization\<close> header (the other headers and the mode are constants) and the body.
  A response as the program reads it: status, status text, and what \<open>response.json()\<close>
  settles to. \<open>ok\<close> is the platform's reading of the status.
\<close>

record request =
  req_url :: jsstring
  req_method :: jsstring
  req_auth :: jsstring
  req_body :: "jsstring option"

record response =
  status :: nat
  statusText :: jsstring
  json_result :: "jserror + json"

definition ok :: "response \<Rightarrow> bool" where
  "ok r = (200 \<le> status r \<and> status r \<le> 299)"

text \<open>
  The built-in functions the program calls are parameters: \<open>fetch\<close> over a network state
  of any type, the JSON codec (the second argument of \<open>JSON_stringify\<close> is the
  indentation), base64, and the two operations on dates.
\<close>

record 'n platform =
  fetch :: "request \<Rightarrow> 'n \<Rightarrow> (jserror + response) \<times> 'n"
  JSON_parse :: "jsstring \<Rightarrow> jserror + json"
  JSON_stringify :: "json \<Rightarrow> nat \<Rightarrow> jsstring"
  btoa :: "jsstring \<Rightarrow> jserror + jsstring"
  atob :: "jsstring \<Rightarrow> jserror + jsstring"
  toISOString :: "int \<Rightarrow> jsstring"
  addDays :: "int \<Rightarrow> int \<Rightarrow> int"

record github_config =
  username :: jsstring
  repoName :: jsstring
  enabled :: bool

text \<open>
  The state outside the two classes: the globals on \<open>window\<close>, the two key-value stores,
  the remote, the log of every request handed to \<open>fetch\<close> (oldest first) and the clock
  in milliseconds.
\<close>

record 'n world =
  GITHUB_CONFIG :: "github_config option"
  GitHubAPI_defined :: bool
  localStorage :: "jsstring \<Rightarrow> jsstring option"
  sessionStorage :: "jsstring \<Rightarrow> jsstring option"
  network :: 'n
  requests :: "request list"
  clock :: int

section \<open>GitHubAPI (github-config.js)\<close>

record GitHubAPI =
  token :: jsstring
  apiBaseUrl :: jsstring
  api_username :: "jsstring option"
  api_repoName :: "jsstring option"

definition GitHubAPI_new :: "jsstring \<Rightarrow> GitHubAPI" where
  "GitHubAPI_new tok =
     \<lparr>token = tok, apiBaseUrl = S ''https://api.github.com'',
      api_username = None, api_repoName = None\<rparr>"

fun str_or_null :: "jsstring option \<Rightarrow> jsstring" where
  "str_or_null None = S ''null''"
| "str_or_null (Some s) = s"

text \<open>\<open>makeRequest\<close>, lines 84 to 99: the request built before \<open>fetch\<close> is called.\<close>

definition makeRequest_options ::
  "'n platform \<Rightarrow> GitHubAPI \<Rightarrow> jsstring \<Rightarrow> jsstring \<Rightarrow> json option \<Rightarrow> request" where
  "makeRequest_options P this endpoint method data =
     \<lparr>req_url = apiBaseUrl this @ endpoint,
      req_method = method,
      req_auth = S ''token '' @ token this,
      req_body =
        (if truthy_u data \<and> (method = S ''POST'' \<or> method = S ''PUT'' \<or> method = S ''PATCH'')
         then Some (JSON_stringify P (the data) 0) else None)\<rparr>"

text \<open>\<open>makeRequest\<close>, lines 103 to 113: what is made of the response.\<close>

definition makeRequest_result :: "'n platform \<Rightarrow> jsstring \<Rightarrow> response \<Rightarrow> jserror + json" where
  "makeRequest_result P method response =
     (if \<not> ok response then
        (let errorData = (case json_result response of Inl e \<Rightarrow> JObject [] | Inr j \<Rightarrow> j)
         in Inl (JSError ''Error''
              (S ''GitHub API Error: '' @ decimal (status response) @ S '' ''
               @ statusText response @ S '' - '' @ JSON_stringify P errorData 0)))
      else if method = S ''HEAD'' \<or> status response = 204 then
        Inr (JObject [(S ''status'', JNum (int (status response))), (S ''ok'', JBool True)])
      else json_result response)"

definition makeRequest ::
  "'n platform \<Rightarrow> GitHubAPI \<Rightarrow> jsstring \<Rightarrow> jsstring \<Rightarrow> json option \<Rightarrow> 'n world
     \<Rightarrow> (jserror + json) \<times> 'n world" where
  "makeRequest P this endpoint method data w =
     (let options = makeRequest_options P this endpoint method data;
          (r, n) = fetch P options (network w);
          w' = w\<lparr>network := n, requests := requests w @ [options]\<rparr>
      in (case r of Inl e \<Rightarrow> Inl e | Inr response \<Rightarrow> makeRequest_result P method response, w'))"

text \<open>
  What \<open>getFile\<close> returns for a file that exists; \<open>sha\<close> and \<open>path\<close> are whatever the
  response holds under these names, possibly \<open>undefined\<close>.
\<close>

record repo_file =
  file_content :: jsstring
  file_sha :: "json option"
  file_path :: "json option"

definition contents_endpoint :: "GitHubAPI \<Rightarrow> jsstring \<Rightarrow> jsstring" where
  "contents_endpoint this path =
     S ''/repos/'' @ str_or_null (api_username this) @ S ''/''
     @ str_or_null (api_repoName this) @ S ''/contents/'' @ path"

definition null_property_error :: "jsstring \<Rightarrow> jserror" where
  "null_property_error k =
     JSError ''TypeError''
       (S ''Cannot read properties of null (reading '' @ [39] @ k @ [39] @ S '')'')"

definition getFile ::
  "'n platform \<Rightarrow> GitHubAPI \<Rightarrow> jsstring \<Rightarrow> 'n world
     \<Rightarrow> (jserror + repo_file option) \<times> 'n world" where
  "getFile P this path w =
     (let endpoint = contents_endpoint this path;
          (r, w') = makeRequest P this endpoint (S ''GET'') None w;
          tried =
            (case r of
               Inl e \<Rightarrow> Inl e
             | Inr response \<Rightarrow>
                 if response = JNull then Inl (null_property_error (S ''content''))
                 else (case atob P (ToString_u (get_prop response (S ''content''))) of
                         Inl e \<Rightarrow> Inl e
                       | Inr content \<Rightarrow>
                           Inr (Some \<lparr>file_content = content,
                                      file_sha = get_prop response (S ''sha''),
                                      file_path = get_prop response (S ''path'')\<rparr>)))
      in (case tried of
            Inl error \<Rightarrow>
              if includes_js (message error) (S ''404'') then (Inr None, w') else (Inl error, w')
          | Inr file \<Rightarrow> (Inr file, w')))"

definition saveFile ::
  "'n platform \<Rightarrow> GitHubAPI \<Rightarrow> jsstring \<Rightarrow> jsstring \<Rightarrow> jsstring \<Rightarrow> 'n world
     \<Rightarrow> (jserror + json) \<times> 'n world" where
  "saveFile P this path content msg w =
     (case getFile P this path w of
        (Inl e, w1) \<Rightarrow> (Inl e, w1)
      | (Inr existingFile, w1) \<Rightarrow>
          (let sha = (case existingFile of Some f \<Rightarrow> file_sha f | None \<Rightarrow> Some JNull);
               endpoint = contents_endpoint this path
           in (case btoa P content of
                 Inl e \<Rightarrow> (Inl e, w1)
               | Inr encoded \<Rightarrow>
                   (let data = JObject
                          ([(S ''message'', JString msg),
                            (S ''content'', JString encoded),
                            (S ''branch'', JString (S ''main''))]
                           @ (if truthy_u sha then [(S ''sha'', the sha)] else []))
                    in makeRequest P this endpoint (S ''PUT'') (Some data) w1))))"

definition deleteFile ::
  "'n platform \<Rightarrow> GitHubAPI \<Rightarrow> jsstring \<Rightarrow> jsstring \<Rightarrow> 'n world
     \<Rightarrow> (jserror + json) \<times> 'n world" where
  "deleteFile P this path msg w =
     (case getFile P this path w of
        (Inl e, w1) \<Rightarrow> (Inl e, w1)
      | (Inr None, w1) \<Rightarrow> (Inl (JSError ''Error'' (S ''File not found: '' @ path)), w1)
      | (Inr (Some existingFile), w1) \<Rightarrow>
          (let endpoint = contents_endpoint this path;
               data = JObject
                 ([(S ''message'', JString msg)]
                  @ (case file_sha existingFile of Some v \<Rightarrow> [(S ''sha'', v)] | None \<Rightarrow> [])
                  @ [(S ''branch'', JString (S ''main''))])
           in makeRequest P this endpoint (S ''DELETE'') (Some data) w1))"

text \<open>
  \<open>GitHubAPI.initialize\<close>: the probe of the repository. It records the two names and
  answers whether the request went through; it never throws.
\<close>

definition probe_endpoint :: "jsstring \<Rightarrow> jsstring \<Rightarrow> jsstring" where
  "probe_endpoint u r = S ''/repos/'' @ u @ S ''/'' @ r"

definition api_initialize ::
  "'n platform \<Rightarrow> GitHubAPI \<Rightarrow> jsstring \<Rightarrow> jsstring \<Rightarrow> 'n world
     \<Rightarrow> bool \<times> GitHubAPI \<times> 'n world" where
  "api_initialize P this0 u r w =
     (let this = this0\<lparr>api_username := Some u, api_repoName := Some r\<rparr>;
          (res, w') = makeRequest P this (probe_endpoint u r) (S ''GET'') None w
      in (case res of Inl e \<Rightarrow> (False, this, w') | Inr v \<Rightarrow> (True, this, w')))"

text \<open>
  The four document getters of \<open>GitHubAPI\<close> have one body: read the file, parse it,
  and answer the default when the file is absent or anything throws. The four setters
  likewise: stringify with indentation 2, save, and answer whether that went through.
\<close>

definition api_get_document ::
  "'n platform \<Rightarrow> GitHubAPI \<Rightarrow> jsstring \<Rightarrow> json \<Rightarrow> 'n world \<Rightarrow> (jserror + json) \<times> 'n world" where
  "api_get_document P this path dflt w =
     (case getFile P this path w of
        (Inl error, w') \<Rightarrow> (Inr dflt, w')
      | (Inr None, w') \<Rightarrow> (Inr dflt, w')
      | (Inr (Some file), w') \<Rightarrow>
          (case JSON_parse P (file_content file) of
             Inl error \<Rightarrow> (Inr dflt, w')
           | Inr v \<Rightarrow> (Inr v, w')))"

definition api_save_document ::
  "'n platform \<Rightarrow> GitHubAPI \<Rightarrow> jsstring \<Rightarrow> json \<Rightarrow> jsstring \<Rightarrow> 'n world
     \<Rightarrow> (jserror + bool) \<times> 'n world" where
  "api_save_document P this path v msg w =
     (case saveFile P this path (JSON_stringify P v 2) msg w of
        (Inl error, w') \<Rightarrow> (Inr False, w')
      | (Inr res, w') \<Rightarrow> (Inr True, w'))"

definition default_social_links :: json where
  "default_social_links =
     JObject [(S ''youtube'', JString (S ''https://www.youtube.com'')),
              (S ''discord'', JString (S ''https://discord.com''))]"

definition default_admin_settings :: json where
  "default_admin_settings = JObject [(S ''adminCode'', JString (S ''0988131688''))]"

definition api_getNewsItems where
  "api_getNewsItems P this w = api_get_document P this (S ''news.json'') (JArray []) w"

definition api_saveNewsItems where
  "api_saveNewsItems P this newsItems w =
     api_save_document P this (S ''news.json'') newsItems (S ''Update news items'') w"

definition api_getSiteSettings where
  "api_getSiteSettings P this w = api_get_document P this (S ''settings.json'') (JObject []) w"

definition api_saveSiteSettings where
  "api_saveSiteSettings P this settings w =
     api_save_document P this (S ''settings.json'') settings (S ''Update site settings'') w"

definition api_getSocialLinks where
  "api_getSocialLinks P this w =
     api_get_document P this (S ''social.json'') default_social_links w"

definition api_saveSocialLinks where
  "api_saveSocialLinks P this links w =
     api_save_document P this (S ''social.json'') links (S ''Update social media links'') w"

definition api_getAdminSettings where
  "api_getAdminSettings P this w =
     api_get_document P this (S ''admin.json'') default_admin_settings w"

definition api_saveAdminSettings where
  "api_saveAdminSettings P this settings w =
     api_save_document P this (S ''admin.json'') settings (S ''Update admin settings'') w"

section \<open>DataManager (data-manager.js)\<close>

text \<open>
  The promise kept in \<open>initPromise\<close>. \<open>Pending req\<close>: the executor is suspended in
  \<open>makeRequest\<close> at \<open>await fetch\<close>, waiting for the answer to \<open>req\<close>.
  \<open>Resolved b\<close>: \<open>resolve(b)\<close> has run. Nothing ever rejects it.
\<close>

datatype promise = Pending request | Resolved bool

record DataManager =
  githubApi :: "GitHubAPI option"
  isInitialized :: bool
  useGitHub :: bool
  initPromise :: "promise option"

definition DataManager_new :: DataManager where
  "DataManager_new =
     \<lparr>githubApi = None, isInitialized = False, useGitHub = False, initPromise = None\<rparr>"

definition getToken :: "'n world \<Rightarrow> jsstring option" where
  "getToken w = sessionStorage w (S ''github_token'')"

text \<open>
  Whether \<open>initialize\<close> goes on to the probe: the configuration is there and enabled,
  and the two names and the token are non-empty (lines 28 to 32).
\<close>

definition remote_configured :: "'n world \<Rightarrow> bool" where
  "remote_configured w =
     (case GITHUB_CONFIG w of
        None \<Rightarrow> False
      | Some cfg \<Rightarrow>
          enabled cfg \<and> username cfg \<noteq> [] \<and> repoName cfg \<noteq> []
          \<and> (case getToken w of None \<Rightarrow> False | Some t \<Rightarrow> t \<noteq> []))"

definition fall_back :: "bool \<Rightarrow> DataManager \<Rightarrow> DataManager" where
  "fall_back b this =
     this\<lparr>useGitHub := False, isInitialized := True, initPromise := Some (Resolved b)\<rparr>"

definition use_remote :: "DataManager \<Rightarrow> DataManager" where
  "use_remote this =
     this\<lparr>useGitHub := True, isInitialized := True, initPromise := Some (Resolved True)\<rparr>"

text \<open>
  What the executor does once the probe's \<open>fetch\<close> has settled with \<open>r\<close>:
  the rest of \<open>makeRequest\<close> and of \<open>GitHubAPI.initialize\<close>, then lines 36 to 54.
\<close>

definition initialize_settle ::
  "'n platform \<Rightarrow> jserror + response \<Rightarrow> DataManager \<Rightarrow> bool \<times> DataManager" where
  "initialize_settle P r this =
     (let success =
            (case r of
               Inl e \<Rightarrow> False
             | Inr response \<Rightarrow>
                 (case makeRequest_result P (S ''GET'') response of
                    Inl e \<Rightarrow> False | Inr v \<Rightarrow> True))
      in if success then (True, use_remote this) else (True, fall_back True this))"

text \<open>
  \<open>initialize\<close> run to the end, the caller awaiting its result. A promise that is there
  is returned as it is; awaiting a pending one lets the probe's answer arrive. Otherwise
  the executor runs: the \<open>try\<close> body throws only when \<open>window.GitHubAPI\<close> is not
  a constructor, and the \<open>catch\<close> falls back with \<open>resolve(false)\<close>.
\<close>

definition initialize ::
  "'n platform \<Rightarrow> DataManager \<Rightarrow> 'n world \<Rightarrow> (jserror + bool) \<times> DataManager \<times> 'n world" where
  "initialize P this w =
     (case initPromise this of
        Some (Resolved b) \<Rightarrow> (Inr b, this, w)
      | Some (Pending req) \<Rightarrow>
          (let (r, n) = fetch P req (network w);
               (b, this') = initialize_settle P r this
           in (Inr b, this', w\<lparr>network := n\<rparr>))
      | None \<Rightarrow>
          if remote_configured w then
            (let cfg = the (GITHUB_CONFIG w); tok = the (getToken w)
             in if \<not> GitHubAPI_defined w then (Inr False, fall_back False this, w)
                else
                  (let (success, api, w') =
                         api_initialize P (GitHubAPI_new tok) (username cfg) (repoName cfg) w;
                       this1 = this\<lparr>githubApi := Some api\<rparr>
                   in if success then (Inr True, use_remote this1, w')
                      else (Inr True, fall_back True this1, w')))
          else (Inr True, fall_back True this, w))"

text \<open>
  The synchronous part of a call of \<open>initialize\<close>, up to the point where the call
  returns the promise: either the executor ran to its end without a probe, or it is
  suspended with the probe's request handed to \<open>fetch\<close>.
\<close>

definition initialize_start ::
  "'n platform \<Rightarrow> DataManager \<Rightarrow> 'n world \<Rightarrow> DataManager \<times> 'n world" where
  "initialize_start P this w =
     (case initPromise this of
        Some p \<Rightarrow> (this, w)
      | None \<Rightarrow>
          if remote_configured w then
            (let cfg = the (GITHUB_CONFIG w); tok = the (getToken w)
             in if \<not> GitHubAPI_defined w then (fall_back False this, w)
                else
                  (let api = (GitHubAPI_new tok)
                         \<lparr>api_username := Some (username cfg), api_repoName := Some (repoName cfg)\<rparr>;
                       req = makeRequest_options P api
                               (probe_endpoint (username cfg) (repoName cfg)) (S ''GET'') None
                   in (this\<lparr>githubApi := Some api, initPromise := Some (Pending req)\<rparr>,
                       w\<lparr>requests := requests w @ [req]\<rparr>)))
          else (fall_back True this, w))"

definition ensureInitialized ::
  "'n platform \<Rightarrow> DataManager \<Rightarrow> 'n world \<Rightarrow> DataManager \<times> 'n world" where
  "ensureInitialized P this w =
     (if \<not> isInitialized this then snd (initialize P this w) else (this, w))"

text \<open>\<open>localStorage.getItem\<close>: the stored string, or \<open>null\<close>.\<close>

definition getItem :: "(jsstring \<Rightarrow> jsstring option) \<Rightarrow> jsstring \<Rightarrow> json" where
  "getItem store k = (case store k of None \<Rightarrow> JNull | Some s \<Rightarrow> JString s)"

definition setItem ::
  "jsstring \<Rightarrow> jsstring \<Rightarrow> 'n world \<Rightarrow> 'n world" where
  "setItem k v w = w\<lparr>localStorage := (localStorage w)(k \<mapsto> v)\<rparr>"

text \<open>The operator \<open>||\<close>.\<close>

definition or_else :: "json \<Rightarrow> json \<Rightarrow> json" where
  "or_else a b = (if truthy a then a else b)"

definition createSampleNewsData :: "'n platform \<Rightarrow> int \<Rightarrow> json" where
  "createSampleNewsData P now =
     (let yesterday = addDays P now (- 1);
          twoDaysAgo = addDays P now (- 2)
      in JArray
        [JObject
           [(S ''id'', JString (S ''1'')),
            (S ''title'', JString (S ''Welcome to NOARZ'')),
            (S ''category'', JString (S ''roblox-script'')),
            (S ''content'', JString (S
               ''Welcome to our news platform! This is a sample post to show how the system works.'')),
            (S ''coverImageUrl'', JString (S ''https://i.imgur.com/IuN9n69.jpg'')),
            (S ''galleryImages'', JArray
               [JString (S ''https://i.imgur.com/IuN9n69.jpg''),
                JString (S ''https://i.imgur.com/jCgYAFB.jpg'')]),
            (S ''date'', JString (toISOString P now)),
            (S ''edited'', JNull)],
         JObject
           [(S ''id'', JString (S ''2'')),
            (S ''title'', JString (S ''New Features Coming Soon'')),
            (S ''category'', JString (S ''runner'')),
            (S ''content'', JString (S
               ''We are working on exciting new features for our platform. Stay tuned for updates!'')),
            (S ''coverImageUrl'', JString (S ''https://i.imgur.com/jCgYAFB.jpg'')),
            (S ''galleryImages'', JArray
               [JString (S ''https://i.imgur.com/jCgYAFB.jpg''),
                JString (S ''https://i.imgur.com/UKQEMkT.jpg'')]),
            (S ''date'', JString (toISOString P yesterday)),
            (S ''edited'', JNull)],
         JObject
           [(S ''id'', JString (S ''3'')),
            (S ''title'', JString (S ''How to Use the Admin Panel'')),
            (S ''category'', JString (S ''roblox-script'')),
            (S ''content'', JString (S
               ''This guide explains how to use the admin panel to manage your news posts.'')),
            (S ''coverImageUrl'', JString (S ''https://i.imgur.com/UKQEMkT.jpg'')),
            (S ''galleryImages'', JArray
               [JString (S ''https://i.imgur.com/IuN9n69.jpg''),
                JString (S ''https://i.imgur.com/jCgYAFB.jpg''),
                JString (S ''https://i.imgur.com/UKQEMkT.jpg''),
                JString (S ''https://i.imgur.com/YTKM8bR.jpg'')]),
            (S ''date'', JString (toISOString P twoDaysAgo)),
            (S ''edited'', JNull)]])"

text \<open>
  Reading \<open>this.githubApi.m(...)\<close> when \<open>githubApi\<close> is \<open>null\<close> throws.
\<close>

definition on_api ::
  "DataManager \<Rightarrow> jsstring \<Rightarrow> (GitHubAPI \<Rightarrow> 'n world \<Rightarrow> (jserror + 'a) \<times> 'n world)
     \<Rightarrow> 'n world \<Rightarrow> (jserror + 'a) \<times> DataManager \<times> 'n world" where
  "on_api this m f w =
     (case githubApi this of
        None \<Rightarrow> (Inl (null_property_error m), this, w)
      | Some api \<Rightarrow> (let (r, w') = f api w in (r, this, w')))"

definition getNewsItems ::
  "'n platform \<Rightarrow> DataManager \<Rightarrow> 'n world \<Rightarrow> (jserror + json) \<times> DataManager \<times> 'n world" where
  "getNewsItems P this0 w0 =
     (let (this, w) = ensureInitialized P this0 w0
      in if useGitHub this then on_api this (S ''getNewsItems'') (api_getNewsItems P) w
         else (case JSON_parse P (ToString (getItem (localStorage w) (S ''jjkNews''))) of
                 Inl e \<Rightarrow> (Inl e, this, w)
               | Inr newsItems \<Rightarrow>
                   if \<not> truthy newsItems then (Inr (createSampleNewsData P (clock w)), this, w)
                   else (Inr newsItems, this, w)))"

definition saveNewsItems ::
  "'n platform \<Rightarrow> DataManager \<Rightarrow> json \<Rightarrow> 'n world \<Rightarrow> (jserror + bool) \<times> DataManager \<times> 'n world" where
  "saveNewsItems P this0 newsItems w0 =
     (let (this, w) = ensureInitialized P this0 w0
      in if useGitHub this then
           on_api this (S ''saveNewsItems'') (\<lambda>api. api_saveNewsItems P api newsItems) w
         else (Inr True, this, setItem (S ''jjkNews'') (JSON_stringify P newsItems 0) w))"

text \<open>The default news header, code unit by code unit as the source file has it.\<close>

definition default_newsHeader :: jsstring where
  "default_newsHeader = [240, 376, 8220, 176] @ S ''MESSAGE'' @ [240, 376, 8220, 163]"

definition getSiteSettings ::
  "'n platform \<Rightarrow> DataManager \<Rightarrow> 'n world \<Rightarrow> (jserror + json) \<times> DataManager \<times> 'n world" where
  "getSiteSettings P this0 w0 =
     (let (this, w) = ensureInitialized P this0 w0
      in if useGitHub this then on_api this (S ''getSiteSettings'') (api_getSiteSettings P) w
         else (Inr (JObject
                 [(S ''siteTitle'',
                   or_else (getItem (localStorage w) (S ''jjkSiteTitle'')) (JString (S ''NOARZ''))),
                  (S ''newsHeader'',
                   or_else (getItem (localStorage w) (S ''jjkNewsHeader''))
                     (JString default_newsHeader))]),
               this, w))"

text \<open>
  \<open>settings.siteTitle\<close> throws when \<open>settings\<close> is \<open>null\<close>; \<open>setItem\<close> stores the
  string form of what it is given.
\<close>

definition saveSiteSettings ::
  "'n platform \<Rightarrow> DataManager \<Rightarrow> json \<Rightarrow> 'n world \<Rightarrow> (jserror + bool) \<times> DataManager \<times> 'n world" where
  "saveSiteSettings P this0 settings w0 =
     (let (this, w) = ensureInitialized P this0 w0
      in if useGitHub this then
           on_api this (S ''saveSiteSettings'') (\<lambda>api. api_saveSiteSettings P api settings) w
         else if settings = JNull then (Inl (null_property_error (S ''siteTitle'')), this, w)
         else
           (let w1 = setItem (S ''jjkSiteTitle'') (ToString_u (get_prop settings (S ''siteTitle''))) w;
                w2 = setItem (S ''jjkNewsHeader'') (ToString_u (get_prop settings (S ''newsHeader''))) w1
            in (Inr True, this, w2)))"

definition getSocialLinks ::
  "'n platform \<Rightarrow> DataManager \<Rightarrow> 'n world \<Rightarrow> (jserror + json) \<times> DataManager \<times> 'n world" where
  "getSocialLinks P this0 w0 =
     (let (this, w) = ensureInitialized P this0 w0
      in if useGitHub this then on_api this (S ''getSocialLinks'') (api_getSocialLinks P) w
         else (case JSON_parse P (ToString (getItem (localStorage w) (S ''jjkSocialLinks''))) of
                 Inl e \<Rightarrow> (Inl e, this, w)
               | Inr parsed \<Rightarrow> (Inr (or_else parsed default_social_links), this, w)))"

definition saveSocialLinks ::
  "'n platform \<Rightarrow> DataManager \<Rightarrow> json \<Rightarrow> 'n world \<Rightarrow> (jserror + bool) \<times> DataManager \<times> 'n world" where
  "saveSocialLinks P this0 links w0 =
     (let (this, w) = ensureInitialized P this0 w0
      in if useGitHub this then
           on_api this (S ''saveSocialLinks'') (\<lambda>api. api_saveSocialLinks P api links) w
         else (Inr True, this, setItem (S ''jjkSocialLinks'') (JSON_stringify P links 0) w))"

definition getAdminSettings ::
  "'n platform \<Rightarrow> DataManager \<Rightarrow> 'n world \<Rightarrow> (jserror + json) \<times> DataManager \<times> 'n world" where
  "getAdminSettings P this0 w0 =
     (let (this, w) = ensureInitialized P this0 w0
      in if useGitHub this then on_api this (S ''getAdminSettings'') (api_getAdminSettings P) w
         else (Inr (JObject
                 [(S ''adminCode'',
                   or_else (getItem (localStorage w) (S ''jjkAdminCode''))
                     (JString (S ''0988131688'')))]),
               this, w))"

definition saveAdminSettings ::
  "'n platform \<Rightarrow> DataManager \<Rightarrow> json \<Rightarrow> 'n world \<Rightarrow> (jserror + bool) \<times> DataManager \<times> 'n world" where
  "saveAdminSettings P this0 settings w0 =
     (let (this, w) = ensureInitialized P this0 w0
      in if useGitHub this then
           on_api this (S ''saveAdminSettings'') (\<lambda>api. api_saveAdminSettings P api settings) w
         else if settings = JNull then (Inl (null_property_error (S ''adminCode'')), this, w)
         else (Inr True, this,
               setItem (S ''jjkAdminCode'') (ToString_u (get_prop settings (S ''adminCode''))) w))"

section \<open>A reference platform\<close>

text \<open>
  One platform to run the program on: a JSON codec (integer numerals only, keys kept in
  the order of the text), base64 as \<open>btoa\<close> and \<open>atob\<close> do it, dates in a browser
  whose local time is UTC, and the remote described below.
\<close>

definition hex_digit :: "nat \<Rightarrow> nat" where
  "hex_digit n = (if n < 10 then 48 + n else 87 + n)"

definition escape_u :: "nat \<Rightarrow> jsstring" where
  "escape_u c =
     [92, 117, hex_digit (c div 4096), hex_digit (c div 256 mod 16),
      hex_digit (c div 16 mod 16), hex_digit (c mod 16)]"

definition is_high :: "nat \<Rightarrow> bool" where
  "is_high c = (55296 \<le> c \<and> c \<le> 56319)"

definition is_low :: "nat \<Rightarrow> bool" where
  "is_low c = (56320 \<le> c \<and> c \<le> 57343)"

definition escape_short :: "nat \<Rightarrow> jsstring" where
  "escape_short c =
     (if c = 34 then [92, 34] else if c = 92 then [92, 92]
      else if c = 8 then [92, 98] else if c = 12 then [92, 102]
      else if c = 10 then [92, 110] else if c = 13 then [92, 114]
      else if c = 9 then [92, 116]
      else if c < 32 then escape_u c else [c])"

fun quote_chars :: "jsstring \<Rightarrow> jsstring" where
  "quote_chars [] = []"
| "quote_chars [c] = (if is_high c \<or> is_low c then escape_u c else escape_short c)"
| "quote_chars (c # d # cs) =
     (if is_high c \<and> is_low d then c # d # quote_chars cs
      else if is_high c \<or> is_low c then escape_u c @ quote_chars (d # cs)
      else escape_short c @ quote_chars (d # cs))"

definition quote :: "jsstring \<Rightarrow> jsstring" where
  "quote s = [34] @ quote_chars s @ [34]"

fun join_with :: "jsstring \<Rightarrow> jsstring list \<Rightarrow> jsstring" where
  "join_with sep [] = []"
| "join_with sep [x] = x"
| "join_with sep (x # y # ys) = x @ sep @ join_with sep (y # ys)"

fun serialize :: "jsstring \<Rightarrow> jsstring \<Rightarrow> json \<Rightarrow> jsstring" where
  "serialize gap indent JNull = S ''null''"
| "serialize gap indent (JBool b) = (if b then S ''true'' else S ''false'')"
| "serialize gap indent (JNum n) = ToString (JNum n)"
| "serialize gap indent (JString s) = quote s"
| "serialize gap indent (JArray xs) =
     (if xs = [] then S ''[]''
      else if gap = [] then
        S ''['' @ join_with (S '','') (map (serialize gap (indent @ gap)) xs) @ S '']''
      else
        S ''['' @ [10] @ indent @ gap
        @ join_with (S '','' @ [10] @ indent @ gap) (map (serialize gap (indent @ gap)) xs)
        @ [10] @ indent @ S '']'')"
| "serialize gap indent (JObject kvs) =
     (if kvs = [] then S ''{}''
      else if gap = [] then
        S ''{'' @ join_with (S '','')
           (map (\<lambda>kv. quote (fst kv) @ S '':'' @ serialize gap (indent @ gap) (snd kv)) kvs)
        @ S ''}''
      else
        S ''{'' @ [10] @ indent @ gap
        @ join_with (S '','' @ [10] @ indent @ gap)
           (map (\<lambda>kv. quote (fst kv) @ S '': '' @ serialize gap (indent @ gap) (snd kv)) kvs)
        @ [10] @ indent @ S ''}'')"

definition JSON_stringify_ref :: "json \<Rightarrow> nat \<Rightarrow> jsstring" where
  "JSON_stringify_ref v space = serialize (replicate (min space 10) 32) [] v"


definition is_ws :: "nat \<Rightarrow> bool" where
  "is_ws c = (c = 9 \<or> c = 10 \<or> c = 13 \<or> c = 32)"

definition skip_ws :: "jsstring \<Rightarrow> jsstring" where
  "skip_ws s = dropWhile is_ws s"

definition hex_value :: "nat \<Rightarrow> nat option" where
  "hex_value c =
     (if 48 \<le> c \<and> c \<le> 57 then Some (c - 48)
      else if 97 \<le> c \<and> c \<le> 102 then Some (c - 87)
      else if 65 \<le> c \<and> c \<le> 70 then Some (c - 55)
      else None)"

fun hex4 :: "jsstring \<Rightarrow> nat option" where
  "hex4 [a, b, c, d] =
     (case (hex_value a, hex_value b, hex_value c, hex_value d) of
        (Some p, Some q, Some r, Some s) \<Rightarrow> Some (((p * 16 + q) * 16 + r) * 16 + s)
      | _ \<Rightarrow> None)"
| "hex4 s = None"

definition unescape :: "nat \<Rightarrow> nat option" where
  "unescape e =
     (if e = 34 \<or> e = 92 \<or> e = 47 then Some e
      else if e = 98 then Some 8 else if e = 102 then Some 12
      else if e = 110 then Some 10 else if e = 114 then Some 13
      else if e = 116 then Some 9 else None)"

definition cons_fst :: "nat \<Rightarrow> (jsstring \<times> jsstring) option \<Rightarrow> (jsstring \<times> jsstring) option" where
  "cons_fst c r = (case r of None \<Rightarrow> None | Some (s, rest) \<Rightarrow> Some (c # s, rest))"

text \<open>The characters of a string literal after its opening quote, and what follows it.\<close>

fun parse_string :: "jsstring \<Rightarrow> (jsstring \<times> jsstring) option" where
  "parse_string [] = None"
| "parse_string (c # cs) =
     (if c = 34 then Some ([], cs)
      else if c = 92 then
        (case cs of
           [] \<Rightarrow> None
         | e # es \<Rightarrow>
             if e = 117 then
               (case hex4 (take 4 es) of
                  None \<Rightarrow> None
                | Some n \<Rightarrow> cons_fst n (parse_string (drop 4 es)))
             else (case unescape e of
                     None \<Rightarrow> None
                   | Some x \<Rightarrow> cons_fst x (parse_string es)))
      else if c < 32 then None
      else cons_fst c (parse_string cs))"

definition is_digit :: "nat \<Rightarrow> bool" where
  "is_digit c = (48 \<le> c \<and> c \<le> 57)"

definition digits_value :: "jsstring \<Rightarrow> nat" where
  "digits_value ds = foldl (\<lambda>n d. 10 * n + (d - 48)) 0 ds"

text \<open>An integer literal; a fraction or an exponent is not read.\<close>

definition parse_nat :: "jsstring \<Rightarrow> (nat \<times> jsstring) option" where
  "parse_nat s =
     (let ds = takeWhile is_digit s; rest = dropWhile is_digit s
      in if ds = [] \<or> (hd ds = 48 \<and> length ds > 1) then None
         else (case rest of
                 c # cs \<Rightarrow> if c = 46 \<or> c = 101 \<or> c = 69 then None
                           else Some (digits_value ds, rest)
               | [] \<Rightarrow> Some (digits_value ds, rest)))"

definition parse_number :: "jsstring \<Rightarrow> (json \<times> jsstring) option" where
  "parse_number s =
     (case s of
        [] \<Rightarrow> None
      | c # cs \<Rightarrow>
          if c = 45 then map_option (\<lambda>(n, r). (JNum (- int n), r)) (parse_nat cs)
          else map_option (\<lambda>(n, r). (JNum (int n), r)) (parse_nat s))"

definition obj_put :: "jsstring \<Rightarrow> json \<Rightarrow> (jsstring \<times> json) list \<Rightarrow> (jsstring \<times> json) list" where
  "obj_put k v kvs =
     (if k \<in> fst ` set kvs then map (\<lambda>kv. if fst kv = k then (k, v) else kv) kvs
      else kvs @ [(k, v)])"

fun parse_value :: "nat \<Rightarrow> jsstring \<Rightarrow> (json \<times> jsstring) option"
  and parse_elements :: "nat \<Rightarrow> json list \<Rightarrow> jsstring \<Rightarrow> (json \<times> jsstring) option"
  and parse_members :: "nat \<Rightarrow> (jsstring \<times> json) list \<Rightarrow> jsstring \<Rightarrow> (json \<times> jsstring) option"
where
  "parse_value 0 s = None"
| "parse_value (Suc f) s =
     (case skip_ws s of
        [] \<Rightarrow> None
      | c # cs \<Rightarrow>
          if c = 34 then map_option (\<lambda>(x, r). (JString x, r)) (parse_string cs)
          else if c = 91 then
            (case skip_ws cs of
               [] \<Rightarrow> None
             | d # ds \<Rightarrow> if d = 93 then Some (JArray [], ds) else parse_elements f [] cs)
          else if c = 123 then
            (case skip_ws cs of
               [] \<Rightarrow> None
             | d # ds \<Rightarrow> if d = 125 then Some (JObject [], ds) else parse_members f [] cs)
          else if starts_with (c # cs) (S ''null'') then Some (JNull, drop 4 (c # cs))
          else if starts_with (c # cs) (S ''true'') then Some (JBool True, drop 4 (c # cs))
          else if starts_with (c # cs) (S ''false'') then Some (JBool False, drop 5 (c # cs))
          else parse_number (c # cs))"
| "parse_elements 0 acc s = None"
| "parse_elements (Suc f) acc s =
     (case parse_value f s of
        None \<Rightarrow> None
      | Some (v, r) \<Rightarrow>
          (case skip_ws r of
             [] \<Rightarrow> None
           | c # cs \<Rightarrow>
               if c = 44 then parse_elements f (acc @ [v]) cs
               else if c = 93 then Some (JArray (acc @ [v]), cs)
               else None))"
| "parse_members 0 acc s = None"
| "parse_members (Suc f) acc s =
     (case skip_ws s of
        [] \<Rightarrow> None
      | q # qs \<Rightarrow>
          if q \<noteq> 34 then None
          else (case parse_string qs of
                  None \<Rightarrow> None
                | Some (k, r) \<Rightarrow>
                    (case skip_ws r of
                       [] \<Rightarrow> None
                     | c # cs \<Rightarrow>
                         if c \<noteq> 58 then None
                         else (case parse_value f cs of
                                 None \<Rightarrow> None
                               | Some (v, r') \<Rightarrow>
                                   (case skip_ws r' of
                                      [] \<Rightarrow> None
                                    | e # es \<Rightarrow>
                                        if e = 44 then parse_members f (obj_put k v acc) es
                                        else if e = 125 then Some (JObject (obj_put k v acc), es)
                                        else None)))))"

definition syntax_error :: jserror where
  "syntax_error = JSError ''SyntaxError'' (S ''Unexpected token in JSON'')"

definition JSON_parse_ref :: "jsstring \<Rightarrow> jserror + json" where
  "JSON_parse_ref s =
     (case parse_value (Suc (length s)) s of
        None \<Rightarrow> Inl syntax_error
      | Some (v, r) \<Rightarrow> if skip_ws r = [] then Inr v else Inl syntax_error)"


definition b64_alphabet :: jsstring where
  "b64_alphabet = S ''ABCDEFGHIJKLMNOPQRSTUVWXYZabcdefghijklmnopqrstuvwxyz0123456789+/''"

definition b64_char :: "nat \<Rightarrow> nat" where
  "b64_char n = b64_alphabet ! n"

fun b64_encode :: "nat list \<Rightarrow> jsstring" where
  "b64_encode [] = []"
| "b64_encode [a] = [b64_char (a div 4), b64_char (a mod 4 * 16), 61, 61]"
| "b64_encode [a, b] =
     [b64_char (a div 4), b64_char (a mod 4 * 16 + b div 16), b64_char (b mod 16 * 4), 61]"
| "b64_encode (a # b # c # r) =
     [b64_char (a div 4), b64_char (a mod 4 * 16 + b div 16),
      b64_char (b mod 16 * 4 + c div 64), b64_char (c mod 64)] @ b64_encode r"

definition invalid_character :: jserror where
  "invalid_character =
     JSError ''InvalidCharacterError'' (S ''The string contains invalid characters.'')"

definition btoa_ref :: "jsstring \<Rightarrow> jserror + jsstring" where
  "btoa_ref s = (if list_all (\<lambda>c. c \<le> 255) s then Inr (b64_encode s) else Inl invalid_character)"

fun index_of :: "nat \<Rightarrow> jsstring \<Rightarrow> nat option" where
  "index_of c [] = None"
| "index_of c (x # xs) = (if c = x then Some 0 else map_option Suc (index_of c xs))"

fun b64_values :: "jsstring \<Rightarrow> nat list option" where
  "b64_values [] = Some []"
| "b64_values (c # cs) =
     (case (index_of c b64_alphabet, b64_values cs) of
        (Some v, Some vs) \<Rightarrow> Some (v # vs)
      | _ \<Rightarrow> None)"

fun b64_decode :: "nat list \<Rightarrow> nat list" where
  "b64_decode (a # b # c # d # r) =
     [a * 4 + b div 16, b mod 16 * 16 + c div 4, c mod 4 * 64 + d] @ b64_decode r"
| "b64_decode [a, b, c] = [a * 4 + b div 16, b mod 16 * 16 + c div 4]"
| "b64_decode [a, b] = [a * 4 + b div 16]"
| "b64_decode r = []"

definition strip_padding :: "jsstring \<Rightarrow> jsstring" where
  "strip_padding s =
     (if length s mod 4 = 0 \<and> s \<noteq> [] \<and> last s = 61 then
        (if butlast s \<noteq> [] \<and> last (butlast s) = 61 then butlast (butlast s) else butlast s)
      else s)"

definition atob_ref :: "jsstring \<Rightarrow> jserror + jsstring" where
  "atob_ref s =
     (let t = strip_padding (filter (\<lambda>c. \<not> (c = 9 \<or> c = 10 \<or> c = 12 \<or> c = 13 \<or> c = 32)) s)
      in if length t mod 4 = 1 then Inl invalid_character
         else (case b64_values t of
                 None \<Rightarrow> Inl invalid_character
               | Some vs \<Rightarrow> Inr (b64_decode vs)))"

definition pad :: "nat \<Rightarrow> nat \<Rightarrow> jsstring" where
  "pad width n = replicate (width - length (decimal n)) 48 @ decimal n"

text \<open>
  \<open>Date.prototype.toISOString\<close> for the years 0 to 9999, from the milliseconds since
  the epoch; the day number is turned into a civil date era by era of 400 years.
\<close>

definition toISOString_ref :: "int \<Rightarrow> jsstring" where
  "toISOString_ref t =
     (let days = t div 86400000; ms = nat (t mod 86400000);
          z = days + 719468; era = z div 146097; doe = nat (z - era * 146097);
          yoe = (doe - doe div 1460 + doe div 36524 - doe div 146096) div 365;
          doy = doe - (365 * yoe + yoe div 4 - yoe div 100);
          mp = (5 * doy + 2) div 153;
          d = doy - (153 * mp + 2) div 5 + 1;
          m = (if mp < 10 then mp + 3 else mp - 9);
          y = nat (int yoe + era * 400) + (if m \<le> 2 then 1 else 0)
      in pad 4 y @ S ''-'' @ pad 2 m @ S ''-'' @ pad 2 d @ S ''T''
         @ pad 2 (ms div 3600000) @ S '':'' @ pad 2 (ms div 60000 mod 60) @ S '':''
         @ pad 2 (ms div 1000 mod 60) @ S ''.'' @ pad 3 (ms mod 1000) @ S ''Z'')"


section \<open>A reference remote\<close>

text \<open>
  The remote the reference platform talks to: a contents API over one repository with one
  branch, \<open>main\<close>. It holds the \<open>Authorization\<close> values it accepts, the URL of the
  repository, and for the URL of each file the base64 text and the content-hash token.
  When it is not reachable \<open>fetch\<close> rejects. A write to an existing file must carry
  the file's token; every write gives the file a new, non-empty token.
\<close>

record github =
  gh_reachable :: bool
  gh_credentials :: "jsstring list"
  gh_repo :: jsstring
  gh_files :: "jsstring \<Rightarrow> (jsstring \<times> jsstring) option"

definition respond :: "nat \<Rightarrow> string \<Rightarrow> json \<Rightarrow> jserror + response" where
  "respond code reason j = Inr \<lparr>status = code, statusText = S reason, json_result = Inr j\<rparr>"

definition error_body :: "string \<Rightarrow> json" where
  "error_body reason = JObject [(S ''message'', JString (S reason))]"

definition blob_sha :: "jsstring \<Rightarrow> jsstring" where
  "blob_sha c = S ''blob:'' @ c"

text \<open>The path of a contents URL inside the repository, if it is one.\<close>

definition contents_path :: "jsstring \<Rightarrow> jsstring \<Rightarrow> jsstring option" where
  "contents_path repo u =
     (if starts_with u (repo @ S ''/contents/'')
      then Some (drop (length (repo @ S ''/contents/'')) u) else None)"

definition written :: "jsstring \<Rightarrow> jsstring \<Rightarrow> json" where
  "written path c =
     JObject [(S ''content'',
               JObject [(S ''path'', JString path), (S ''sha'', JString (blob_sha c))])]"

definition gh_get :: "jsstring \<Rightarrow> jsstring \<Rightarrow> github \<Rightarrow> jserror + response" where
  "gh_get u path g =
     (case gh_files g u of
        None \<Rightarrow> respond 404 ''Not Found'' (error_body ''Not Found'')
      | Some (c, h) \<Rightarrow>
          respond 200 ''OK''
            (JObject [(S ''path'', JString path), (S ''sha'', JString h),
                      (S ''content'', JString c), (S ''encoding'', JString (S ''base64''))]))"

definition gh_put ::
  "jsstring \<Rightarrow> jsstring \<Rightarrow> json \<Rightarrow> github \<Rightarrow> (jserror + response) \<times> github" where
  "gh_put u path data g =
     (case get_prop data (S ''content'') of
        Some (JString c) \<Rightarrow>
          (case gh_files g u of
             None \<Rightarrow>
               (respond 201 ''Created'' (written path c),
                g\<lparr>gh_files := (gh_files g)(u \<mapsto> (c, blob_sha c))\<rparr>)
           | Some (c0, h) \<Rightarrow>
               if get_prop data (S ''sha'') = Some (JString h) then
                 (respond 200 ''OK'' (written path c),
                  g\<lparr>gh_files := (gh_files g)(u \<mapsto> (c, blob_sha c))\<rparr>)
               else if get_prop data (S ''sha'') = None then
                 (respond 422 ''Unprocessable Entity''
                    (error_body ''Invalid request. sha was not supplied.''), g)
               else (respond 409 ''Conflict'' (error_body ''sha does not match''), g))
      | _ \<Rightarrow>
          (respond 422 ''Unprocessable Entity''
             (error_body ''Invalid request. content was not supplied.''), g))"

definition gh_delete ::
  "jsstring \<Rightarrow> json \<Rightarrow> github \<Rightarrow> (jserror + response) \<times> github" where
  "gh_delete u data g =
     (case gh_files g u of
        None \<Rightarrow> (respond 404 ''Not Found'' (error_body ''Not Found''), g)
      | Some (c0, h) \<Rightarrow>
          if get_prop data (S ''sha'') = Some (JString h) then
            (respond 200 ''OK'' (JObject [(S ''content'', JNull)]),
             g\<lparr>gh_files := (gh_files g)(u := None)\<rparr>)
          else if get_prop data (S ''sha'') = None then
            (respond 422 ''Unprocessable Entity''
               (error_body ''Invalid request. sha was not supplied.''), g)
          else (respond 409 ''Conflict'' (error_body ''sha does not match''), g))"

definition github_fetch ::
  "(jsstring \<Rightarrow> jserror + json) \<Rightarrow> request \<Rightarrow> github \<Rightarrow> (jserror + response) \<times> github" where
  "github_fetch parse req g =
     (if \<not> gh_reachable g then (Inl (JSError ''TypeError'' (S ''Failed to fetch'')), g)
      else if req_auth req \<notin> set (gh_credentials g) then
        (respond 401 ''Unauthorized'' (error_body ''Bad credentials''), g)
      else if req_method req = S ''GET'' \<and> req_url req = gh_repo g then
        (respond 200 ''OK'' (JObject [(S ''url'', JString (req_url req))]), g)
      else
        (case contents_path (gh_repo g) (req_url req) of
           None \<Rightarrow> (respond 404 ''Not Found'' (error_body ''Not Found''), g)
         | Some path \<Rightarrow>
             if req_method req = S ''GET'' then (gh_get (req_url req) path g, g)
             else
               (case (case req_body req of None \<Rightarrow> Inr JNull | Some b \<Rightarrow> parse b) of
                  Inl e \<Rightarrow> (respond 400 ''Bad Request'' (error_body ''Problems parsing JSON''), g)
                | Inr data \<Rightarrow>
                    if get_prop data (S ''branch'') \<notin> {None, Some (JString (S ''main''))} then
                      (respond 404 ''Not Found'' (error_body ''Branch not found''), g)
                    else if req_method req = S ''PUT'' then gh_put (req_url req) path data g
                    else if req_method req = S ''DELETE'' then gh_delete (req_url req) data g
                    else (respond 404 ''Not Found'' (error_body ''Not Found''), g))))"

definition browser :: "github platform" where
  "browser =
     \<lparr>fetch = github_fetch JSON_parse_ref,
      JSON_parse = JSON_parse_ref,
      JSON_stringify = JSON_stringify_ref,
      btoa = btoa_ref,
      atob = atob_ref,
      toISOString = toISOString_ref,
      addDays = (\<lambda>t k. t + k * 86400000)\<rparr>"


section \<open>Conditions and example states used below\<close>

text \<open>
  The probe fails: \<open>GitHubAPI.initialize\<close>, called with the configured names and
  token, answers \<open>false\<close>.
\<close>

definition probe_fails :: "'n platform \<Rightarrow> 'n world \<Rightarrow> bool" where
  "probe_fails P w =
     (case GITHUB_CONFIG w of
        None \<Rightarrow> False
      | Some cfg \<Rightarrow>
          (case getToken w of
             None \<Rightarrow> False
           | Some tok \<Rightarrow>
               \<not> fst (api_initialize P (GitHubAPI_new tok) (username cfg) (repoName cfg) w)))"

definition example_config :: github_config where
  "example_config = \<lparr>username = S ''dom'', repoName = S ''site'', enabled = True\<rparr>"

definition example_remote :: github where
  "example_remote =
     \<lparr>gh_reachable = True, gh_credentials = [S ''token t0k''],
      gh_repo = S ''https://api.github.com/repos/dom/site'', gh_files = Map.empty\<rparr>"

definition example_world :: "github world" where
  "example_world =
     \<lparr>GITHUB_CONFIG = Some example_config, GitHubAPI_defined = True,
      localStorage = Map.empty, sessionStorage = [S ''github_token'' \<mapsto> S ''t0k''],
      network = example_remote, requests = [], clock = 1793660645123\<rparr>"

text \<open>The request \<open>getFile\<close> hands to \<open>fetch\<close> for a path.\<close>

definition get_request :: "'n platform \<Rightarrow> GitHubAPI \<Rightarrow> jsstring \<Rightarrow> request" where
  "get_request P this path = makeRequest_options P this (contents_endpoint this path) (S ''GET'') None"

definition example_api :: GitHubAPI where
  "example_api =
     \<lparr>token = S ''t0k'', apiBaseUrl = S ''https://api.github.com'',
      api_username = Some (S ''dom''), api_repoName = Some (S ''site'')\<rparr>"

definition example_file_url :: jsstring where
  "example_file_url = S ''https://api.github.com/repos/dom/site/contents/news.json''"


definition example_world_with_file :: "github world" where
  "example_world_with_file =
     example_world\<lparr>network :=
       example_remote\<lparr>gh_files := [example_file_url \<mapsto> (S ''W10='', S ''abc123'')]\<rparr>\<rparr>"

text \<open>
  A platform whose remote answers every request with the rate-limit refusal of an
  authenticated user, and a world whose stored news text is not JSON.
\<close>

definition rate_limited :: "github platform" where
  "rate_limited =
     browser\<lparr>fetch := (\<lambda>req g.
       (respond 403 ''Forbidden'' (error_body ''API rate limit exceeded for user ID 1404567.''), g))\<rparr>"

definition example_world_malformed :: "github world" where
  "example_world_malformed =
     example_world\<lparr>GITHUB_CONFIG := None, localStorage := [S ''jjkNews'' \<mapsto> S ''{'']\<rparr>"

section \<open>Calls that overlap\<close>

text \<open>
  The program runs on one thread, and a call gives way to others only at an \<open>await\<close>.
  For \<open>initialize\<close> that is the probe's \<open>fetch\<close>. So what can happen to a manager,
  as far as its initialization goes, is a sequence of these events: somebody calls
  \<open>initialize\<close>; somebody calls an accessor, which runs \<open>_ensureInitialized\<close>; the
  pending probe settles with some outcome, and the executor runs on to its end; the page
  changes the configuration or the stored token. \<open>run\<close> applies the events in order.
  A call returns the promise that \<open>initPromise\<close> holds when its synchronous part is
  over.
\<close>

datatype event =
    Call_initialize
  | Call_accessor
  | Probe_settles "jserror + response"
  | Configure "github_config option" "jsstring option"

fun step :: "'n platform \<Rightarrow> event \<Rightarrow> DataManager \<times> 'n world \<Rightarrow> DataManager \<times> 'n world" where
  "step P Call_initialize (this, w) = initialize_start P this w"
| "step P Call_accessor (this, w) =
     (if \<not> isInitialized this then initialize_start P this w else (this, w))"
| "step P (Probe_settles r) (this, w) =
     (case initPromise this of
        Some (Pending req) \<Rightarrow> (snd (initialize_settle P r this), w)
      | _ \<Rightarrow> (this, w))"
| "step P (Configure cfg tok) (this, w) =
     (this, w\<lparr>GITHUB_CONFIG := cfg,
              sessionStorage := (sessionStorage w)(S ''github_token'' := tok)\<rparr>)"

fun run :: "'n platform \<Rightarrow> event list \<Rightarrow> DataManager \<times> 'n world \<Rightarrow> DataManager \<times> 'n world" where
  "run P [] s = s"
| "run P (e # es) s = run P es (step P e s)"

text \<open>What the proofs below carry along a run that started with \<open>k\<close> requests logged.\<close>

definition settled :: "DataManager \<Rightarrow> bool" where
  "settled this = (case initPromise this of Some (Resolved b) \<Rightarrow> True | _ \<Rightarrow> False)"

definition init_inv :: "nat \<Rightarrow> DataManager \<times> 'n world \<Rightarrow> bool" where
  "init_inv k s =
     ((isInitialized (fst s) \<longrightarrow> settled (fst s))
      \<and> (initPromise (fst s) = None \<longrightarrow> length (requests (snd s)) = k)
      \<and> length (requests (snd s)) \<le> Suc k)"


definition example_events :: "event list" where
  "example_events =
     [Call_accessor, Call_accessor, Call_initialize,
      Probe_settles (respond 200 ''OK'' (JObject [])), Call_accessor]"

definition example_later :: "event list" where
  "example_later = [Call_accessor, Configure None None, Call_initialize, Call_accessor]"

section \<open>Saving and reading back\<close>

text \<open>
  The shapes of the two settings documents. Then the conditions on a remote for a document
  to be kept: the platform's network is the reference remote, which is reachable, accepts
  the token and holds the repository the API object names; the file that is there, if
  any, has a token and base64 text that \<open>atob\<close> reads; the JSON text of the value
  passes through \<open>JSON.parse\<close>, and through \<open>btoa\<close> and back through \<open>atob\<close>,
  unchanged; and the remote reads the body of the write request as the data that was
  sent (\<open>put_data\<close>).
\<close>

definition site_settings :: "jsstring \<Rightarrow> jsstring \<Rightarrow> json" where
  "site_settings title header =
     JObject [(S ''siteTitle'', JString title), (S ''newsHeader'', JString header)]"

definition admin_settings :: "jsstring \<Rightarrow> json" where
  "admin_settings code = JObject [(S ''adminCode'', JString code)]"

definition file_url :: "GitHubAPI \<Rightarrow> jsstring \<Rightarrow> jsstring" where
  "file_url api path = apiBaseUrl api @ contents_endpoint api path"

definition served_by :: "GitHubAPI \<Rightarrow> github \<Rightarrow> bool" where
  "served_by api g =
     (gh_reachable g \<and> S ''token '' @ token api \<in> set (gh_credentials g)
      \<and> gh_repo g = apiBaseUrl api @ S ''/repos/'' @ str_or_null (api_username api) @ S ''/''
                        @ str_or_null (api_repoName api))"

definition readable :: "'n platform \<Rightarrow> (jsstring \<times> jsstring) option \<Rightarrow> bool" where
  "readable P file =
     (case file of None \<Rightarrow> True | Some (c0, h0) \<Rightarrow> h0 \<noteq> [] \<and> \<not> isl (atob P c0))"

definition put_data :: "jsstring \<Rightarrow> jsstring \<Rightarrow> (jsstring \<times> jsstring) option \<Rightarrow> json" where
  "put_data msg enc file =
     JObject ([(S ''message'', JString msg), (S ''content'', JString enc),
               (S ''branch'', JString (S ''main''))]
              @ (case file of None \<Rightarrow> [] | Some (c0, h0) \<Rightarrow> [(S ''sha'', JString h0)]))"

definition remote_keeps ::
  "github platform \<Rightarrow> GitHubAPI \<Rightarrow> github world \<Rightarrow> jsstring \<Rightarrow> jsstring \<Rightarrow> json \<Rightarrow> bool" where
  "remote_keeps P api w path msg v =
     (fetch P = github_fetch (JSON_parse P)
      \<and> served_by api (network w)
      \<and> readable P (gh_files (network w) (file_url api path))
      \<and> JSON_parse P (JSON_stringify P v 2) = Inr v
      \<and> (case btoa P (JSON_stringify P v 2) of
            Inl e \<Rightarrow> False
          | Inr enc \<Rightarrow>
              atob P enc = Inr (JSON_stringify P v 2)
              \<and> JSON_parse P
                    (JSON_stringify P (put_data msg enc (gh_files (network w) (file_url api path))) 0)
                  = Inr (put_data msg enc (gh_files (network w) (file_url api path)))))"

definition remote_selected :: "DataManager \<Rightarrow> GitHubAPI \<Rightarrow> bool" where
  "remote_selected this api = (isInitialized this \<and> useGitHub this \<and> githubApi this = Some api)"

definition example_news :: json where
  "example_news = JArray [JObject [(S ''id'', JString (S ''1''))]]"

definition example_links :: json where
  "example_links = JObject [(S ''youtube'', JString (S ''y''))]"

definition example_manager :: DataManager where
  "example_manager =
     \<lparr>githubApi = Some example_api, isInitialized = True, useGitHub = True,
      initPromise = Some (Resolved True)\<rparr>"

section \<open>Properties\<close>

lemma S_inject [simp]: "S a = S b \<longleftrightarrow> a = b"
  unfolding S_def by (simp add: inj_map_eq_map inj_on_def)

lemma S_Nil [simp]: "S [] = []"
  by (simp add: S_def)

lemma S_eq_Nil [simp]: "S a = [] \<longleftrightarrow> a = []" "[] = S a \<longleftrightarrow> a = []"
  by (auto simp: S_def)

lemma S_append: "S a @ S b = S (a @ b)"
  by (simp add: S_def)

lemma starts_with_append [simp]: "starts_with (p @ s) p"
  by (induction p) auto

lemma includes_js_Nil [simp]: "includes_js s []"
  by (cases s) auto

lemma includes_js_prefix [simp]: "includes_js (p @ s) p"
proof (cases "p @ s")
  case Nil
  then show ?thesis by simp
next
  case (Cons a l)
  have "starts_with (p @ s) p" by simp
  with Cons show ?thesis by simp
qed

lemma includes_js_append [simp]: "includes_js (a @ p @ s) p"
proof (induction a)
  case Nil
  show ?case by simp
next
  case (Cons x a)
  then show ?case by simp
qed

lemma decimal_404: "decimal 404 = S ''404''"
  by (simp add: decimal.simps S_def)

lemma fall_back_simps [simp]:
  "useGitHub (fall_back b this) = False"
  "isInitialized (fall_back b this) = True"
  "githubApi (fall_back b this) = githubApi this"
  "initPromise (fall_back b this) = Some (Resolved b)"
  by (simp_all add: fall_back_def)

lemma use_remote_simps [simp]:
  "useGitHub (use_remote this) = True"
  "isInitialized (use_remote this) = True"
  "githubApi (use_remote this) = githubApi this"
  "initPromise (use_remote this) = Some (Resolved True)"
  by (simp_all add: use_remote_def)

text \<open>
  Claim C7. With a configuration whose \<open>enabled\<close> is false, a first call of
  \<open>initialize\<close> selects the local backend, leaves \<open>githubApi\<close> as it was (no
  \<open>GitHubAPI\<close> is constructed) and leaves the world as it was: no request is handed
  to \<open>fetch\<close> and the remote is not touched.
\<close>

theorem initialize_disabled:
  assumes "initPromise this = None" and "GITHUB_CONFIG w = Some cfg" and "\<not> enabled cfg"
  shows "case initialize P this w of
           (r, this', w') \<Rightarrow>
             r = Inr True \<and> \<not> useGitHub this' \<and> isInitialized this'
             \<and> githubApi this' = githubApi this \<and> w' = w"
  using assms by (simp add: initialize_def remote_configured_def)

text \<open>
  Claim C1. When the configuration is absent, or a name or the token is empty, or the
  probe fails, a first call of \<open>initialize\<close> resolves (it does not throw), with the
  local backend selected and the manager marked as initialized.
\<close>

theorem initialize_falls_back:
  assumes "initPromise this = None"
    and "GITHUB_CONFIG w = None
         \<or> (\<exists>cfg. GITHUB_CONFIG w = Some cfg
               \<and> (username cfg = [] \<or> repoName cfg = []
                    \<or> getToken w = None \<or> getToken w = Some []))
         \<or> probe_fails P w"
  shows "\<exists>b this' w'. initialize P this w = (Inr b, this', w')
           \<and> \<not> useGitHub this' \<and> isInitialized this'"
  using assms
  by (auto simp: initialize_def remote_configured_def probe_fails_def Let_def
           split: option.splits prod.splits)

lemma localStorage_initialize [simp]:
  "localStorage (snd (snd (initialize P this w))) = localStorage w"
  by (simp add: initialize_def api_initialize_def makeRequest_def Let_def
           split: option.splits promise.splits prod.splits sum.splits)

lemma localStorage_ensureInitialized [simp]:
  "localStorage (snd (ensureInitialized P this w)) = localStorage w"
  by (simp add: ensureInitialized_def)

lemma clock_initialize [simp]:
  "clock (snd (snd (initialize P this w))) = clock w"
  by (simp add: initialize_def api_initialize_def makeRequest_def Let_def
           split: option.splits promise.splits prod.splits sum.splits)

lemma clock_ensureInitialized [simp]:
  "clock (snd (ensureInitialized P this w)) = clock w"
  by (simp add: ensureInitialized_def)

text \<open>
  Claim C8. With the local backend selected and no value under the news key,
  \<open>getNewsItems\<close> answers an array of exactly three items whose ids are 1, 2 and 3,
  in this order. The platform is asked only that \<open>JSON.parse\<close> reads the text
  \<open>null\<close> as \<open>null\<close>.
\<close>

theorem getNewsItems_local_sample:
  assumes "\<not> useGitHub (fst (ensureInitialized P this w))"
    and "localStorage w (S ''jjkNews'') = None"
    and "JSON_parse P (S ''null'') = Inr JNull"
  shows "\<exists>a b c. fst (getNewsItems P this w) = Inr (JArray [a, b, c])
           \<and> get_prop a (S ''id'') = Some (JString (S ''1''))
           \<and> get_prop b (S ''id'') = Some (JString (S ''2''))
           \<and> get_prop c (S ''id'') = Some (JString (S ''3''))"
proof -
  obtain this' w' where e: "ensureInitialized P this w = (this', w')"
    by (cases "ensureInitialized P this w")
  have "localStorage w' = localStorage w"
    using localStorage_ensureInitialized [of P this w] e by simp
  with assms e have "fst (getNewsItems P this w) = Inr (createSampleNewsData P (clock w'))"
    by (simp add: getNewsItems_def getItem_def)
  then show ?thesis
    by (simp add: createSampleNewsData_def Let_def)
qed

theorem initialize_disabled_witness:
  "initPromise DataManager_new = None
   \<and> GITHUB_CONFIG (example_world\<lparr>GITHUB_CONFIG := Some (example_config\<lparr>enabled := False\<rparr>)\<rparr>)
       = Some (example_config\<lparr>enabled := False\<rparr>)
   \<and> \<not> enabled (example_config\<lparr>enabled := False\<rparr>)
   \<and> (case initialize browser DataManager_new
              (example_world\<lparr>GITHUB_CONFIG := Some (example_config\<lparr>enabled := False\<rparr>)\<rparr>) of
         (r, this', w') \<Rightarrow>
           r = Inr True \<and> \<not> useGitHub this' \<and> isInitialized this'
           \<and> githubApi this' = githubApi DataManager_new
           \<and> w' = example_world\<lparr>GITHUB_CONFIG := Some (example_config\<lparr>enabled := False\<rparr>)\<rparr>)"
  using initialize_disabled [of DataManager_new
      "example_world\<lparr>GITHUB_CONFIG := Some (example_config\<lparr>enabled := False\<rparr>)\<rparr>"
      "example_config\<lparr>enabled := False\<rparr>" browser]
  by (simp add: DataManager_new_def)

lemma probe_fails_unreachable:
  "probe_fails browser (example_world\<lparr>network := example_remote\<lparr>gh_reachable := False\<rparr>\<rparr>)"
  by (simp add: probe_fails_def example_world_def getToken_def api_initialize_def makeRequest_def
        browser_def github_fetch_def Let_def)

theorem initialize_falls_back_witness:
  "initPromise DataManager_new = None
   \<and> probe_fails browser (example_world\<lparr>network := example_remote\<lparr>gh_reachable := False\<rparr>\<rparr>)
   \<and> (\<exists>b this' w'.
         initialize browser DataManager_new
           (example_world\<lparr>network := example_remote\<lparr>gh_reachable := False\<rparr>\<rparr>) = (Inr b, this', w')
         \<and> \<not> useGitHub this' \<and> isInitialized this')"
  using initialize_falls_back [of DataManager_new
      "example_world\<lparr>network := example_remote\<lparr>gh_reachable := False\<rparr>\<rparr>" browser]
    probe_fails_unreachable
  by (simp add: DataManager_new_def)

lemma JSON_parse_browser_null: "JSON_parse browser (S ''null'') = Inr JNull"
  by code_simp

lemma local_example:
  "\<not> useGitHub (fst (ensureInitialized browser DataManager_new (example_world\<lparr>GITHUB_CONFIG := None\<rparr>)))"
  by (simp add: ensureInitialized_def DataManager_new_def initialize_def remote_configured_def)

theorem getNewsItems_local_sample_witness:
  "\<not> useGitHub (fst (ensureInitialized browser DataManager_new (example_world\<lparr>GITHUB_CONFIG := None\<rparr>)))
   \<and> localStorage (example_world\<lparr>GITHUB_CONFIG := None\<rparr>) (S ''jjkNews'') = None
   \<and> JSON_parse browser (S ''null'') = Inr JNull
   \<and> (\<exists>a b c.
         fst (getNewsItems browser DataManager_new (example_world\<lparr>GITHUB_CONFIG := None\<rparr>))
           = Inr (JArray [a, b, c])
         \<and> get_prop a (S ''id'') = Some (JString (S ''1''))
         \<and> get_prop b (S ''id'') = Some (JString (S ''2''))
         \<and> get_prop c (S ''id'') = Some (JString (S ''3'')))"
  using getNewsItems_local_sample [of browser DataManager_new "example_world\<lparr>GITHUB_CONFIG := None\<rparr>"]
    JSON_parse_browser_null local_example
  by (simp add: example_world_def)

lemma makeRequest_requests:
  "requests (snd (makeRequest P this e m d w)) = requests w @ [makeRequest_options P this e m d]"
  by (simp add: makeRequest_def Let_def split: prod.splits)

lemma getFile_requests:
  "requests (snd (getFile P this path w)) = requests w @ [get_request P this path]"
proof -
  obtain r w' where m: "makeRequest P this (contents_endpoint this path) (S ''GET'') None w = (r, w')"
    by (cases "makeRequest P this (contents_endpoint this path) (S ''GET'') None w")
  have "requests w' = requests w @ [get_request P this path]"
    using makeRequest_requests [of P this "contents_endpoint this path" "S ''GET''" None w] m
    by (simp add: get_request_def)
  then show ?thesis
    by (simp add: getFile_def m Let_def split: sum.splits)
qed

lemma makeRequest_result_404:
  assumes "status response = 404"
  shows "\<exists>e. makeRequest_result P m response = Inl e \<and> includes_js (message e) (S ''404'')"
  using assms by (simp add: makeRequest_result_def ok_def Let_def decimal_404)

lemma getFile_not_found:
  assumes "fst (fetch P (get_request P this path) (network w)) = Inr response"
    and "status response = 404"
  shows "fst (getFile P this path w) = Inr None"
proof -
  obtain e where e: "makeRequest_result P (S ''GET'') response = Inl e"
      "includes_js (message e) (S ''404'')"
    using makeRequest_result_404 [OF assms(2)] by blast
  obtain n where f: "fetch P (get_request P this path) (network w) = (Inr response, n)"
    using assms(1) by (cases "fetch P (get_request P this path) (network w)") simp
  show ?thesis
    using e f by (simp add: getFile_def makeRequest_def get_request_def Let_def)
qed

text \<open>
  Claim C4. When the remote answers the lookup of a path with status 404,
  \<open>deleteFile\<close> throws the error \<open>File not found\<close> for that path, and the only
  request it has handed to \<open>fetch\<close> is that lookup: no request with the method
  DELETE is issued.
\<close>

theorem deleteFile_not_found:
  assumes "fst (fetch P (get_request P this path) (network w)) = Inr response"
    and "status response = 404"
  shows "fst (deleteFile P this path msg w) = Inl (JSError ''Error'' (S ''File not found: '' @ path))
         \<and> requests (snd (deleteFile P this path msg w)) = requests w @ [get_request P this path]
         \<and> (\<forall>r \<in> set (drop (length (requests w)) (requests (snd (deleteFile P this path msg w)))).
               req_method r \<noteq> S ''DELETE'')"
proof -
  obtain w1 where g: "getFile P this path w = (Inr None, w1)"
    using getFile_not_found [OF assms] by (cases "getFile P this path w") simp
  have r: "requests w1 = requests w @ [get_request P this path]"
    using getFile_requests [of P this path w] g by simp
  have d: "deleteFile P this path msg w = (Inl (JSError ''Error'' (S ''File not found: '' @ path)), w1)"
    by (simp add: deleteFile_def g)
  have "req_method (get_request P this path) = S ''GET''"
    by (simp add: get_request_def makeRequest_options_def)
  with d r show ?thesis by simp
qed

lemma length_S [simp]: "length (S a) = length a"
  by (simp add: S_def)

lemma drop_S [simp]: "drop n (S a) = S (drop n a)"
  by (simp add: S_def drop_map)

lemma starts_with_take: "starts_with s p \<longleftrightarrow> take (length p) s = p"
  by (induction s p rule: starts_with.induct) auto

lemma take_S [simp]: "take n (S a) = S (take n a)"
  by (simp add: S_def take_map)

lemma starts_with_S [simp]: "starts_with (S a) (S b) \<longleftrightarrow> take (length b) a = b"
  by (simp add: starts_with_take)

lemma example_get_request:
  "get_request browser example_api (S ''news.json'')
     = \<lparr>req_url = example_file_url, req_method = S ''GET'',
        req_auth = S ''token t0k'', req_body = None\<rparr>"
  by (simp add: get_request_def makeRequest_options_def example_api_def contents_endpoint_def
        example_file_url_def S_append)

lemma example_contents_path:
  "contents_path (gh_repo example_remote) example_file_url = Some (S ''news.json'')"
  by (simp add: contents_path_def example_remote_def example_file_url_def S_append)

lemma example_fetch_absent:
  "fetch browser (get_request browser example_api (S ''news.json'')) example_remote
     = (respond 404 ''Not Found'' (error_body ''Not Found''), example_remote)"
  unfolding example_get_request
  by (simp add: browser_def github_fetch_def example_contents_path gh_get_def)
     (simp add: example_remote_def example_file_url_def)

theorem deleteFile_not_found_witness:
  "fst (fetch browser (get_request browser example_api (S ''news.json'')) (network example_world))
     = respond 404 ''Not Found'' (error_body ''Not Found'')
   \<and> status \<lparr>status = 404, statusText = S ''Not Found'', json_result = Inr (error_body ''Not Found'')\<rparr> = 404
   \<and> fst (deleteFile browser example_api (S ''news.json'') (S ''remove'') example_world)
       = Inl (JSError ''Error'' (S ''File not found: news.json''))
   \<and> requests (snd (deleteFile browser example_api (S ''news.json'') (S ''remove'') example_world))
       = [get_request browser example_api (S ''news.json'')]
   \<and> list_all (\<lambda>r. req_method r \<noteq> S ''DELETE'')
         (requests (snd (deleteFile browser example_api (S ''news.json'') (S ''remove'') example_world)))"
  using deleteFile_not_found [of browser example_api "S ''news.json''" example_world
      "\<lparr>status = 404, statusText = S ''Not Found'', json_result = Inr (error_body ''Not Found'')\<rparr>"
      "S ''remove''"]
    example_fetch_absent
  by (simp add: example_world_def respond_def S_append list_all_iff)

lemma saveFile_requests:
  assumes "getFile P this path w = (Inr existing, w1)"
  shows "requests (snd (saveFile P this path content msg w))
         = requests w1 @
           (case btoa P content of
              Inl e \<Rightarrow> []
            | Inr enc \<Rightarrow>
                [makeRequest_options P this (contents_endpoint this path) (S ''PUT'')
                   (Some (JObject
                      ([(S ''message'', JString msg), (S ''content'', JString enc),
                        (S ''branch'', JString (S ''main''))]
                       @ (if truthy_u (case existing of Some f \<Rightarrow> file_sha f | None \<Rightarrow> Some JNull)
                          then [(S ''sha'', the (case existing of Some f \<Rightarrow> file_sha f | None \<Rightarrow> Some JNull))]
                          else []))))])"
  using assms by (simp add: saveFile_def Let_def makeRequest_requests split: sum.splits)

text \<open>
  Claim C6. \<open>saveFile\<close> first looks the path up. When the file is there with a token,
  the write request that follows (there is one if \<open>btoa\<close> accepts the content)
  carries that token in its \<open>sha\<close> field; when the file is absent, the data of the
  write request has no \<open>sha\<close> field.
\<close>

theorem saveFile_carries_sha:
  "(fst (getFile P this path w) = Inr (Some f) \<and> file_sha f = Some h \<and> truthy h \<longrightarrow>
      drop (length (requests w)) (requests (snd (saveFile P this path content msg w)))
      = get_request P this path #
        (case btoa P content of
           Inl e \<Rightarrow> []
         | Inr enc \<Rightarrow>
             [\<lparr>req_url = apiBaseUrl this @ contents_endpoint this path,
               req_method = S ''PUT'',
               req_auth = S ''token '' @ token this,
               req_body = Some (JSON_stringify P
                 (JObject [(S ''message'', JString msg), (S ''content'', JString enc),
                           (S ''branch'', JString (S ''main'')), (S ''sha'', h)]) 0)\<rparr>]))
   \<and> (fst (getFile P this path w) = Inr None \<longrightarrow>
      drop (length (requests w)) (requests (snd (saveFile P this path content msg w)))
      = get_request P this path #
        (case btoa P content of
           Inl e \<Rightarrow> []
         | Inr enc \<Rightarrow>
             [\<lparr>req_url = apiBaseUrl this @ contents_endpoint this path,
               req_method = S ''PUT'',
               req_auth = S ''token '' @ token this,
               req_body = Some (JSON_stringify P
                 (JObject [(S ''message'', JString msg), (S ''content'', JString enc),
                           (S ''branch'', JString (S ''main''))]) 0)\<rparr>]))"
proof (intro conjI impI)
  assume a: "fst (getFile P this path w) = Inr (Some f) \<and> file_sha f = Some h \<and> truthy h"
  then obtain w1 where g: "getFile P this path w = (Inr (Some f), w1)"
    by (cases "getFile P this path w") simp
  have r: "requests w1 = requests w @ [get_request P this path]"
    using getFile_requests [of P this path w] g by simp
  show "drop (length (requests w)) (requests (snd (saveFile P this path content msg w)))
      = get_request P this path #
        (case btoa P content of
           Inl e \<Rightarrow> []
         | Inr enc \<Rightarrow>
             [\<lparr>req_url = apiBaseUrl this @ contents_endpoint this path,
               req_method = S ''PUT'',
               req_auth = S ''token '' @ token this,
               req_body = Some (JSON_stringify P
                 (JObject [(S ''message'', JString msg), (S ''content'', JString enc),
                           (S ''branch'', JString (S ''main'')), (S ''sha'', h)]) 0)\<rparr>])"
    using a r by (simp add: saveFile_requests [OF g] makeRequest_options_def split: sum.splits)
next
  assume a: "fst (getFile P this path w) = Inr None"
  then obtain w1 where g: "getFile P this path w = (Inr None, w1)"
    by (cases "getFile P this path w") simp
  have r: "requests w1 = requests w @ [get_request P this path]"
    using getFile_requests [of P this path w] g by simp
  show "drop (length (requests w)) (requests (snd (saveFile P this path content msg w)))
      = get_request P this path #
        (case btoa P content of
           Inl e \<Rightarrow> []
         | Inr enc \<Rightarrow>
             [\<lparr>req_url = apiBaseUrl this @ contents_endpoint this path,
               req_method = S ''PUT'',
               req_auth = S ''token '' @ token this,
               req_body = Some (JSON_stringify P
                 (JObject [(S ''message'', JString msg), (S ''content'', JString enc),
                           (S ''branch'', JString (S ''main''))]) 0)\<rparr>])"
    using r by (simp add: saveFile_requests [OF g] makeRequest_options_def split: sum.splits)
qed

lemma atob_browser_example: "atob browser (S ''W10='') = Inr (S ''[]'')"
  by code_simp

lemma example_fetch_present:
  "fetch browser (get_request browser example_api (S ''news.json'')) (network example_world_with_file)
     = (respond 200 ''OK''
          (JObject [(S ''path'', JString (S ''news.json'')), (S ''sha'', JString (S ''abc123'')),
                    (S ''content'', JString (S ''W10='')), (S ''encoding'', JString (S ''base64''))]),
        network example_world_with_file)"
  unfolding example_get_request
  by (simp add: browser_def github_fetch_def example_world_with_file_def gh_get_def
        contents_path_def)
     (simp add: example_remote_def example_file_url_def S_append)

lemma example_getFile_present:
  "fst (getFile browser example_api (S ''news.json'') example_world_with_file)
     = Inr (Some \<lparr>file_content = S ''[]'', file_sha = Some (JString (S ''abc123'')),
                     file_path = Some (JString (S ''news.json''))\<rparr>)"
  using example_fetch_present atob_browser_example
  by (simp add: getFile_def makeRequest_def Let_def get_request_def respond_def
        makeRequest_result_def ok_def)

lemma example_getFile_absent:
  "fst (getFile browser example_api (S ''news.json'') example_world) = Inr None"
  using getFile_not_found [of browser example_api "S ''news.json''" example_world
      "\<lparr>status = 404, statusText = S ''Not Found'', json_result = Inr (error_body ''Not Found'')\<rparr>"]
    example_fetch_absent
  by (simp add: example_world_def respond_def)

theorem saveFile_carries_sha_witness:
  "(fst (getFile browser example_api (S ''news.json'') example_world_with_file)
      = Inr (Some \<lparr>file_content = S ''[]'', file_sha = Some (JString (S ''abc123'')),
                      file_path = Some (JString (S ''news.json''))\<rparr>)
    \<and> truthy (JString (S ''abc123''))
    \<and> drop (length (requests example_world_with_file))
         (requests (snd (saveFile browser example_api (S ''news.json'') (S ''[1]'') (S ''Update'')
            example_world_with_file)))
       = get_request browser example_api (S ''news.json'') #
         (case btoa browser (S ''[1]'') of
            Inl e \<Rightarrow> []
          | Inr enc \<Rightarrow>
              [\<lparr>req_url = apiBaseUrl example_api @ contents_endpoint example_api (S ''news.json''),
                req_method = S ''PUT'',
                req_auth = S ''token '' @ token example_api,
                req_body = Some (JSON_stringify browser
                  (JObject [(S ''message'', JString (S ''Update'')), (S ''content'', JString enc),
                            (S ''branch'', JString (S ''main'')),
                            (S ''sha'', JString (S ''abc123''))]) 0)\<rparr>]))
   \<and> (fst (getFile browser example_api (S ''news.json'') example_world) = Inr None
    \<and> drop (length (requests example_world))
         (requests (snd (saveFile browser example_api (S ''news.json'') (S ''[1]'') (S ''Update'')
            example_world)))
       = get_request browser example_api (S ''news.json'') #
         (case btoa browser (S ''[1]'') of
            Inl e \<Rightarrow> []
          | Inr enc \<Rightarrow>
              [\<lparr>req_url = apiBaseUrl example_api @ contents_endpoint example_api (S ''news.json''),
                req_method = S ''PUT'',
                req_auth = S ''token '' @ token example_api,
                req_body = Some (JSON_stringify browser
                  (JObject [(S ''message'', JString (S ''Update'')), (S ''content'', JString enc),
                            (S ''branch'', JString (S ''main''))]) 0)\<rparr>]))"
  using saveFile_carries_sha [of browser example_api "S ''news.json''" example_world_with_file
      "\<lparr>file_content = S ''[]'', file_sha = Some (JString (S ''abc123'')),
        file_path = Some (JString (S ''news.json''))\<rparr>" "JString (S ''abc123'')" "S ''[1]''" "S ''Update''"]
    saveFile_carries_sha [of browser example_api "S ''news.json''" example_world
      "\<lparr>file_content = S ''[]'', file_sha = Some (JString (S ''abc123'')),
        file_path = Some (JString (S ''news.json''))\<rparr>" "JString (S ''abc123'')" "S ''[1]''" "S ''Update''"]
    example_getFile_present example_getFile_absent
  by simp

lemma getFile_propagates:
  assumes "fst (makeRequest P this (contents_endpoint this path) (S ''GET'') None w) = Inl e"
    and "\<not> includes_js (message e) (S ''404'')"
  shows "fst (getFile P this path w) = Inl e"
  using assms by (auto simp: getFile_def Let_def split: prod.splits)

lemma getFile_swallows:
  assumes "fst (makeRequest P this (contents_endpoint this path) (S ''GET'') None w) = Inl e"
    and "includes_js (message e) (S ''404'')"
  shows "fst (getFile P this path w) = Inr None"
  using assms by (auto simp: getFile_def Let_def split: prod.splits)

lemma rate_limited_message:
  "case makeRequest_result rate_limited (S ''GET'')
          \<lparr>status = 403, statusText = S ''Forbidden'',
           json_result = Inr (error_body ''API rate limit exceeded for user ID 1404567.'')\<rparr> of
     Inl e \<Rightarrow> includes_js (message e) (S ''404'')
   | Inr v \<Rightarrow> False"
  by (simp add: makeRequest_result_def ok_def rate_limited_def browser_def Let_def
        JSON_stringify_ref_def error_body_def quote_def S_def is_high_def is_low_def
        escape_short_def decimal.simps)

text \<open>
  Claim C5. A lookup answered with status 404 gives \<open>null\<close> (\<open>getFile_not_found\<close>),
  and an error whose message does not contain the text 404 is thrown on
  (\<open>getFile_propagates\<close>). But the test is on the text of the whole message: here the
  remote refuses with status 403 and a body that names the user ID 1404567, and
  \<open>getFile\<close> answers \<open>null\<close> instead of throwing.
\<close>

theorem getFile_swallows_rate_limit:
  "fst (getFile rate_limited example_api (S ''news.json'') example_world) = Inr None"
proof -
  obtain e where e: "makeRequest_result rate_limited (S ''GET'')
          \<lparr>status = 403, statusText = S ''Forbidden'',
           json_result = Inr (error_body ''API rate limit exceeded for user ID 1404567.'')\<rparr> = Inl e"
      "includes_js (message e) (S ''404'')"
    using rate_limited_message by (auto split: sum.splits)
  have "fst (makeRequest rate_limited example_api (contents_endpoint example_api (S ''news.json''))
               (S ''GET'') None example_world) = Inl e"
    using e(1) by (simp add: makeRequest_def Let_def rate_limited_def respond_def)
  then show ?thesis
    using e(2) by (rule getFile_swallows)
qed

lemma JSON_parse_browser_malformed: "JSON_parse browser (S ''{'') = Inl syntax_error"
  by code_simp

text \<open>
  Claim C3. On the remote backend a document getter never throws and answers the default
  when the file's text does not parse (\<open>api_get_document_never_raises\<close>,
  \<open>api_get_document_malformed\<close>). On the local backend \<open>getNewsItems\<close> and
  \<open>getSocialLinks\<close> parse outside any \<open>try\<close>: with the text \<open>{\<close> stored under
  the news key, \<open>getNewsItems\<close> throws the parser's error.
\<close>

theorem getNewsItems_local_malformed_raises:
  "fst (getNewsItems browser DataManager_new example_world_malformed) = Inl syntax_error"
  using JSON_parse_browser_malformed
  by (simp add: getNewsItems_def ensureInitialized_def DataManager_new_def initialize_def
        remote_configured_def example_world_malformed_def getItem_def)

lemma api_get_document_never_raises:
  "\<exists>v. fst (api_get_document P this path dflt w) = Inr v"
  by (simp add: api_get_document_def split: prod.splits sum.splits option.splits)

lemma api_get_document_malformed:
  assumes "fst (getFile P this path w) = Inr (Some file)"
    and "JSON_parse P (file_content file) = Inl e"
  shows "fst (api_get_document P this path dflt w) = Inr dflt"
  using assms by (auto simp: api_get_document_def split: prod.splits)

lemma getNewsItems_local_raises:
  assumes "\<not> useGitHub (fst (ensureInitialized P this w))"
    and "localStorage w (S ''jjkNews'') = Some s"
    and "JSON_parse P s = Inl e"
  shows "fst (getNewsItems P this w) = Inl e"
proof -
  obtain this' w' where i: "ensureInitialized P this w = (this', w')"
    by (cases "ensureInitialized P this w")
  have "localStorage w' = localStorage w"
    using localStorage_ensureInitialized [of P this w] i by simp
  with assms i show ?thesis
    by (simp add: getNewsItems_def getItem_def)
qed

lemma getSocialLinks_local_raises:
  assumes "\<not> useGitHub (fst (ensureInitialized P this w))"
    and "localStorage w (S ''jjkSocialLinks'') = Some s"
    and "JSON_parse P s = Inl e"
  shows "fst (getSocialLinks P this w) = Inl e"
proof -
  obtain this' w' where i: "ensureInitialized P this w = (this', w')"
    by (cases "ensureInitialized P this w")
  have "localStorage w' = localStorage w"
    using localStorage_ensureInitialized [of P this w] i by simp
  with assms i show ?thesis
    by (simp add: getSocialLinks_def getItem_def)
qed

lemma localStorage_makeRequest [simp]:
  "localStorage (snd (makeRequest P this e m d w)) = localStorage w"
  by (simp add: makeRequest_def Let_def split: prod.splits)

lemma localStorage_getFile [simp]:
  "localStorage (snd (getFile P this path w)) = localStorage w"
proof -
  obtain r w' where m: "makeRequest P this (contents_endpoint this path) (S ''GET'') None w = (r, w')"
    by (cases "makeRequest P this (contents_endpoint this path) (S ''GET'') None w")
  have "localStorage w' = localStorage w"
    using localStorage_makeRequest [of P this "contents_endpoint this path" "S ''GET''" None w] m
    by simp
  then show ?thesis
    by (simp add: getFile_def m Let_def split: sum.splits)
qed

lemma localStorage_api_get_document [simp]:
  "localStorage (snd (api_get_document P this path dflt w)) = localStorage w"
proof -
  obtain r w' where g: "getFile P this path w = (r, w')"
    by (cases "getFile P this path w")
  have "localStorage w' = localStorage w"
    using localStorage_getFile [of P this path w] g by simp
  then show ?thesis
    by (simp add: api_get_document_def g split: sum.splits option.splits)
qed

lemma localStorage_on_api:
  assumes "\<And>api w. localStorage (snd (f api w)) = localStorage w"
  shows "localStorage (snd (snd (on_api this m f w))) = localStorage w"
proof (cases "githubApi this")
  case None
  then show ?thesis by (simp add: on_api_def)
next
  case (Some api)
  obtain r w' where f: "f api w = (r, w')" by (cases "f api w")
  have "localStorage w' = localStorage w" using assms [of api w] f by simp
  with Some f show ?thesis by (simp add: on_api_def)
qed

lemma getNewsItems_localStorage:
  "localStorage (snd (snd (getNewsItems P this w))) = localStorage w"
proof -
  obtain this' w' where i: "ensureInitialized P this w = (this', w')"
    by (cases "ensureInitialized P this w")
  have l: "localStorage w' = localStorage w"
    using localStorage_ensureInitialized [of P this w] i by simp
  have "localStorage (snd (snd (on_api this' (S ''getNewsItems'') (api_getNewsItems P) w'))) = localStorage w'"
    by (rule localStorage_on_api) (simp add: api_getNewsItems_def)
  with l show ?thesis
    by (simp add: getNewsItems_def i split: sum.splits)
qed

lemma getSiteSettings_localStorage:
  "localStorage (snd (snd (getSiteSettings P this w))) = localStorage w"
proof -
  obtain this' w' where i: "ensureInitialized P this w = (this', w')"
    by (cases "ensureInitialized P this w")
  have l: "localStorage w' = localStorage w"
    using localStorage_ensureInitialized [of P this w] i by simp
  have "localStorage (snd (snd (on_api this' (S ''getSiteSettings'') (api_getSiteSettings P) w'))) = localStorage w'"
    by (rule localStorage_on_api) (simp add: api_getSiteSettings_def)
  with l show ?thesis
    by (simp add: getSiteSettings_def i)
qed

lemma getSocialLinks_localStorage:
  "localStorage (snd (snd (getSocialLinks P this w))) = localStorage w"
proof -
  obtain this' w' where i: "ensureInitialized P this w = (this', w')"
    by (cases "ensureInitialized P this w")
  have l: "localStorage w' = localStorage w"
    using localStorage_ensureInitialized [of P this w] i by simp
  have "localStorage (snd (snd (on_api this' (S ''getSocialLinks'') (api_getSocialLinks P) w'))) = localStorage w'"
    by (rule localStorage_on_api) (simp add: api_getSocialLinks_def)
  with l show ?thesis
    by (simp add: getSocialLinks_def i split: sum.splits)
qed

lemma getAdminSettings_localStorage:
  "localStorage (snd (snd (getAdminSettings P this w))) = localStorage w"
proof -
  obtain this' w' where i: "ensureInitialized P this w = (this', w')"
    by (cases "ensureInitialized P this w")
  have l: "localStorage w' = localStorage w"
    using localStorage_ensureInitialized [of P this w] i by simp
  have "localStorage (snd (snd (on_api this' (S ''getAdminSettings'') (api_getAdminSettings P) w'))) = localStorage w'"
    by (rule localStorage_on_api) (simp add: api_getAdminSettings_def)
  with l show ?thesis
    by (simp add: getAdminSettings_def i)
qed

lemma initialize_settle_initialized [simp]:
  "isInitialized (snd (initialize_settle P r this))"
  by (simp add: initialize_settle_def Let_def)

lemma ensureInitialized_again:
  "fst (ensureInitialized P (fst (ensureInitialized P this w)) w2) = fst (ensureInitialized P this w)"
proof (cases "isInitialized this")
  case True
  then show ?thesis by (simp add: ensureInitialized_def)
next
  case False
  show ?thesis
  proof (cases "initPromise this")
    case None
    with False show ?thesis
      by (simp add: ensureInitialized_def initialize_def Let_def split: prod.splits)
  next
    case (Some p)
    show ?thesis
    proof (cases p)
      case (Pending req)
      with False Some show ?thesis
        by (simp add: ensureInitialized_def initialize_def Let_def split: prod.splits)
           (metis initialize_settle_initialized snd_conv)
    next
      case (Resolved b)
      with False Some show ?thesis
        by (simp add: ensureInitialized_def initialize_def)
    qed
  qed
qed

lemma getNewsItems_sample:
  assumes "\<not> useGitHub (fst (ensureInitialized P this w))"
    and "localStorage w (S ''jjkNews'') = None"
    and "JSON_parse P (S ''null'') = Inr JNull"
  shows "getNewsItems P this w
         = (Inr (createSampleNewsData P (clock w)), fst (ensureInitialized P this w),
            snd (ensureInitialized P this w))"
proof -
  obtain this' w' where i: "ensureInitialized P this w = (this', w')"
    by (cases "ensureInitialized P this w")
  have "localStorage w' = localStorage w" "clock w' = clock w"
    using localStorage_ensureInitialized [of P this w] clock_ensureInitialized [of P this w] i
    by simp_all
  with assms i show ?thesis
    by (simp add: getNewsItems_def getItem_def)
qed

text \<open>
  Claim C10. None of the four getters changes \<open>localStorage\<close>. In particular, when
  the local backend is selected and the news key is absent, \<open>getNewsItems\<close> answers
  the sample items made from the clock and leaves the key absent, so that a later call,
  at clock \<open>t\<close>, makes them again with the date of \<open>t\<close>.
\<close>

theorem get_accessors_do_not_write:
  "localStorage (snd (snd (getNewsItems P this w))) = localStorage w
   \<and> localStorage (snd (snd (getSiteSettings P this w))) = localStorage w
   \<and> localStorage (snd (snd (getSocialLinks P this w))) = localStorage w
   \<and> localStorage (snd (snd (getAdminSettings P this w))) = localStorage w
   \<and> (\<not> useGitHub (fst (ensureInitialized P this w))
        \<and> localStorage w (S ''jjkNews'') = None
        \<and> JSON_parse P (S ''null'') = Inr JNull \<longrightarrow>
      (case getNewsItems P this w of
         (r, this', w') \<Rightarrow>
           r = Inr (createSampleNewsData P (clock w))
           \<and> localStorage w' (S ''jjkNews'') = None
           \<and> (\<forall>t. \<exists>a b c.
                 fst (getNewsItems P this' (w'\<lparr>clock := t\<rparr>)) = Inr (JArray [a, b, c])
                 \<and> get_prop a (S ''date'') = Some (JString (toISOString P t)))))"
proof (intro conjI impI)
  assume a: "\<not> useGitHub (fst (ensureInitialized P this w))
        \<and> localStorage w (S ''jjkNews'') = None
        \<and> JSON_parse P (S ''null'') = Inr JNull"
  obtain this' w' where i: "ensureInitialized P this w = (this', w')"
    by (cases "ensureInitialized P this w")
  have g: "getNewsItems P this w = (Inr (createSampleNewsData P (clock w)), this', w')"
    using getNewsItems_sample [of P this w] a i by simp
  have l: "localStorage w' = localStorage w"
    using localStorage_ensureInitialized [of P this w] i by simp
  have again: "\<And>t. getNewsItems P this' (w'\<lparr>clock := t\<rparr>)
      = (Inr (createSampleNewsData P t), fst (ensureInitialized P this' (w'\<lparr>clock := t\<rparr>)),
            snd (ensureInitialized P this' (w'\<lparr>clock := t\<rparr>)))"
  proof -
    fix t
    have "fst (ensureInitialized P this' (w'\<lparr>clock := t\<rparr>)) = this'"
      using ensureInitialized_again [of P this w "w'\<lparr>clock := t\<rparr>"] i by simp
    then show "getNewsItems P this' (w'\<lparr>clock := t\<rparr>)
      = (Inr (createSampleNewsData P t), fst (ensureInitialized P this' (w'\<lparr>clock := t\<rparr>)),
            snd (ensureInitialized P this' (w'\<lparr>clock := t\<rparr>)))"
      using getNewsItems_sample [of P this' "w'\<lparr>clock := t\<rparr>"] a i l by simp
  qed
  show "case getNewsItems P this w of
         (r, this', w') \<Rightarrow>
           r = Inr (createSampleNewsData P (clock w))
           \<and> localStorage w' (S ''jjkNews'') = None
           \<and> (\<forall>t. \<exists>a b c.
                 fst (getNewsItems P this' (w'\<lparr>clock := t\<rparr>)) = Inr (JArray [a, b, c])
                 \<and> get_prop a (S ''date'') = Some (JString (toISOString P t)))"
    using a l by (simp add: g again createSampleNewsData_def Let_def)
qed (rule getNewsItems_localStorage getSiteSettings_localStorage getSocialLinks_localStorage
       getAdminSettings_localStorage)+

theorem get_accessors_do_not_write_witness:
  "\<not> useGitHub (fst (ensureInitialized browser DataManager_new (example_world\<lparr>GITHUB_CONFIG := None\<rparr>)))
   \<and> localStorage (example_world\<lparr>GITHUB_CONFIG := None\<rparr>) (S ''jjkNews'') = None
   \<and> JSON_parse browser (S ''null'') = Inr JNull
   \<and> (case getNewsItems browser DataManager_new (example_world\<lparr>GITHUB_CONFIG := None\<rparr>) of
         (r, this', w') \<Rightarrow>
           r = Inr (createSampleNewsData browser (clock (example_world\<lparr>GITHUB_CONFIG := None\<rparr>)))
           \<and> localStorage w' (S ''jjkNews'') = None
           \<and> (\<forall>t. \<exists>a b c.
                 fst (getNewsItems browser this' (w'\<lparr>clock := t\<rparr>)) = Inr (JArray [a, b, c])
                 \<and> get_prop a (S ''date'') = Some (JString (toISOString browser t))))"
  using get_accessors_do_not_write [of browser DataManager_new "example_world\<lparr>GITHUB_CONFIG := None\<rparr>"]
    JSON_parse_browser_null local_example
  by (simp add: example_world_def)

lemma initialize_start_then_await:
  assumes "initPromise this = None"
  shows "initialize P this w = (case initialize_start P this w of (this1, w1) \<Rightarrow> initialize P this1 w1)"
  using assms
  by (simp add: initialize_def initialize_start_def api_initialize_def makeRequest_def Let_def
        initialize_settle_def fall_back_def use_remote_def
        split: prod.splits sum.splits)

lemma initialize_start_started:
  "initPromise this \<noteq> None \<Longrightarrow> initialize_start P this w = (this, w)"
  by (auto simp: initialize_start_def)

lemma init_inv_start:
  assumes "init_inv k (this, w)"
  shows "init_inv k (initialize_start P this w)"
proof (cases "initPromise this")
  case None
  with assms show ?thesis
    by (simp add: init_inv_def initialize_start_def settled_def Let_def)
next
  case (Some p)
  with assms show ?thesis by (simp add: initialize_start_started)
qed

lemma init_inv_step:
  assumes "init_inv k s"
  shows "init_inv k (step P e s)"
proof (cases s)
  case (Pair this w)
  show ?thesis
  proof (cases e)
    case Call_initialize
    with Pair assms show ?thesis by (simp add: init_inv_start)
  next
    case Call_accessor
    with Pair assms show ?thesis by (simp add: init_inv_start)
  next
    case (Probe_settles r)
    with Pair assms show ?thesis
      by (auto simp: init_inv_def settled_def initialize_settle_def Let_def
               split: option.splits promise.splits)
  next
    case (Configure cfg tok)
    with Pair assms show ?thesis by (simp add: init_inv_def)
  qed
qed

lemma init_inv_run:
  "init_inv k s \<Longrightarrow> init_inv k (run P evs s)"
  by (induction evs arbitrary: s) (simp_all add: init_inv_step)

lemma init_inv_new: "init_inv (length (requests w)) (DataManager_new, w)"
  by (simp add: init_inv_def DataManager_new_def)

lemma settled_step:
  assumes "settled (fst s)"
  shows "fst (step P e s) = fst s"
proof (cases s)
  case (Pair this w)
  with assms have "initPromise this \<noteq> None"
    by (auto simp: settled_def split: option.splits)
  with Pair assms show ?thesis
    by (cases e) (auto simp: initialize_start_started settled_def split: promise.splits)
qed

lemma settled_run:
  "settled (fst s) \<Longrightarrow> fst (run P evs s) = fst s"
proof (induction evs arbitrary: s)
  case Nil
  show ?case by simp
next
  case (Cons e es)
  have "fst (step P e s) = fst s" using Cons.prems by (rule settled_step)
  with Cons show ?case by simp
qed

text \<open>
  Claim C9. Along every sequence of events on a new manager: at most one request (the
  probe) is ever handed to \<open>fetch\<close>; a call of \<open>initialize\<close> made once a promise is
  there, pending or resolved, changes nothing and so returns that same promise; and from
  the moment the manager is initialized no later event changes it, so every caller that
  resumes reads the same \<open>useGitHub\<close>.
\<close>

theorem single_initialization:
  "length (requests (snd (run P evs (DataManager_new, w)))) \<le> Suc (length (requests w))
   \<and> (initPromise (fst (run P evs (DataManager_new, w))) \<noteq> None \<longrightarrow>
        step P Call_initialize (run P evs (DataManager_new, w)) = run P evs (DataManager_new, w))
   \<and> (isInitialized (fst (run P evs (DataManager_new, w))) \<longrightarrow>
        fst (run P later (run P evs (DataManager_new, w))) = fst (run P evs (DataManager_new, w)))"
proof -
  have inv: "init_inv (length (requests w)) (run P evs (DataManager_new, w))"
    using init_inv_new by (rule init_inv_run)
  obtain this1 w1 where s: "run P evs (DataManager_new, w) = (this1, w1)"
    by (cases "run P evs (DataManager_new, w)")
  have 1: "length (requests w1) \<le> Suc (length (requests w))"
    using inv s by (simp add: init_inv_def)
  have 2: "initPromise this1 \<noteq> None \<longrightarrow> step P Call_initialize (this1, w1) = (this1, w1)"
    by (simp add: initialize_start_started)
  have 3: "isInitialized this1 \<longrightarrow> fst (run P later (this1, w1)) = this1"
  proof
    assume "isInitialized this1"
    then have "settled (fst (this1, w1))" using inv s by (simp add: init_inv_def)
    then show "fst (run P later (this1, w1)) = this1"
      using settled_run [of "(this1, w1)" P later] by simp
  qed
  from 1 2 3 show ?thesis by (simp add: s)
qed

lemma example_run:
  "fst (run browser example_events (DataManager_new, example_world))
     = \<lparr>githubApi = Some example_api, isInitialized = True, useGitHub = True,
        initPromise = Some (Resolved True)\<rparr>"
  by (simp add: example_events_def DataManager_new_def initialize_start_def remote_configured_def
        example_world_def example_config_def getToken_def Let_def GitHubAPI_new_def example_api_def
        initialize_settle_def respond_def makeRequest_result_def ok_def use_remote_def)

theorem single_initialization_witness:
  "initPromise (fst (run browser example_events (DataManager_new, example_world))) \<noteq> None
   \<and> isInitialized (fst (run browser example_events (DataManager_new, example_world)))
   \<and> length (requests (snd (run browser example_events (DataManager_new, example_world))))
       \<le> Suc (length (requests example_world))
   \<and> step browser Call_initialize (run browser example_events (DataManager_new, example_world))
       = run browser example_events (DataManager_new, example_world)
   \<and> fst (run browser example_later (run browser example_events (DataManager_new, example_world)))
       = fst (run browser example_events (DataManager_new, example_world))
   \<and> useGitHub (fst (run browser example_later
         (run browser example_events (DataManager_new, example_world))))"
  using single_initialization [of browser example_events example_world example_later]
  by (simp add: example_run)

lemma ensureInitialized_twice:
  "ensureInitialized P (fst (ensureInitialized P this w)) w2 = (fst (ensureInitialized P this w), w2)"
proof (cases "isInitialized this")
  case True
  then show ?thesis by (simp add: ensureInitialized_def)
next
  case False
  show ?thesis
  proof (cases "initPromise this")
    case None
    with False show ?thesis
      by (simp add: ensureInitialized_def initialize_def Let_def split: prod.splits)
  next
    case (Some p)
    show ?thesis
    proof (cases p)
      case (Pending req)
      with False Some show ?thesis
        by (simp add: ensureInitialized_def initialize_def Let_def split: prod.splits)
           (metis initialize_settle_initialized snd_conv)
    next
      case (Resolved b)
      with False Some show ?thesis
        by (simp add: ensureInitialized_def initialize_def)
    qed
  qed
qed

lemma local_news_roundtrip:
  assumes "\<not> useGitHub (fst (ensureInitialized P this w))"
    and "truthy v"
    and "JSON_parse P (JSON_stringify P v 0) = Inr v"
  shows "case saveNewsItems P this v w of
           (r, this1, w1) \<Rightarrow> r = Inr True \<and> fst (getNewsItems P this1 w1) = Inr v"
proof -
  obtain this' w' where i: "ensureInitialized P this w = (this', w')"
    by (cases "ensureInitialized P this w")
  have again: "\<And>w2. ensureInitialized P this' w2 = (this', w2)"
    using ensureInitialized_twice [of P this w] i by simp
  show ?thesis
    using assms i
    by (simp add: saveNewsItems_def getNewsItems_def again setItem_def getItem_def)
qed

lemma local_social_roundtrip:
  assumes "\<not> useGitHub (fst (ensureInitialized P this w))"
    and "truthy v"
    and "JSON_parse P (JSON_stringify P v 0) = Inr v"
  shows "case saveSocialLinks P this v w of
           (r, this1, w1) \<Rightarrow> r = Inr True \<and> fst (getSocialLinks P this1 w1) = Inr v"
proof -
  obtain this' w' where i: "ensureInitialized P this w = (this', w')"
    by (cases "ensureInitialized P this w")
  have again: "\<And>w2. ensureInitialized P this' w2 = (this', w2)"
    using ensureInitialized_twice [of P this w] i by simp
  show ?thesis
    using assms i
    by (simp add: saveSocialLinks_def getSocialLinks_def again setItem_def getItem_def or_else_def)
qed

lemma local_site_roundtrip:
  assumes "\<not> useGitHub (fst (ensureInitialized P this w))"
    and "title \<noteq> []" and "header \<noteq> []"
  shows "case saveSiteSettings P this (site_settings title header) w of
           (r, this1, w1) \<Rightarrow>
             r = Inr True \<and> fst (getSiteSettings P this1 w1) = Inr (site_settings title header)"
proof -
  obtain this' w' where i: "ensureInitialized P this w = (this', w')"
    by (cases "ensureInitialized P this w")
  have again: "\<And>w2. ensureInitialized P this' w2 = (this', w2)"
    using ensureInitialized_twice [of P this w] i by simp
  show ?thesis
    using assms i
    by (simp add: saveSiteSettings_def getSiteSettings_def again setItem_def getItem_def
          or_else_def site_settings_def Let_def)
qed

lemma local_admin_roundtrip:
  assumes "\<not> useGitHub (fst (ensureInitialized P this w))"
    and "code \<noteq> []"
  shows "case saveAdminSettings P this (admin_settings code) w of
           (r, this1, w1) \<Rightarrow>
             r = Inr True \<and> fst (getAdminSettings P this1 w1) = Inr (admin_settings code)"
proof -
  obtain this' w' where i: "ensureInitialized P this w = (this', w')"
    by (cases "ensureInitialized P this w")
  have again: "\<And>w2. ensureInitialized P this' w2 = (this', w2)"
    using ensureInitialized_twice [of P this w] i by simp
  show ?thesis
    using assms i
    by (simp add: saveAdminSettings_def getAdminSettings_def again setItem_def getItem_def
          or_else_def admin_settings_def Let_def)
qed

text \<open>
  Claim C2 does not hold as stated. On the local backend the two fields of the site
  settings are stored as they are and read back with \<open>||\<close>, so an empty title comes
  back as the default title.
\<close>

theorem empty_title_is_not_read_back:
  "fst (saveSiteSettings browser DataManager_new (site_settings [] (S ''News''))
          (example_world\<lparr>GITHUB_CONFIG := None\<rparr>)) = Inr True
   \<and> fst (getSiteSettings browser
          (fst (snd (saveSiteSettings browser DataManager_new (site_settings [] (S ''News''))
             (example_world\<lparr>GITHUB_CONFIG := None\<rparr>))))
          (snd (snd (saveSiteSettings browser DataManager_new (site_settings [] (S ''News''))
             (example_world\<lparr>GITHUB_CONFIG := None\<rparr>)))))
       = Inr (site_settings (S ''NOARZ'') (S ''News''))
   \<and> site_settings (S ''NOARZ'') (S ''News'') \<noteq> site_settings [] (S ''News'')"
  by (simp add: saveSiteSettings_def getSiteSettings_def ensureInitialized_def DataManager_new_def
        initialize_def remote_configured_def setItem_def getItem_def or_else_def site_settings_def
        Let_def)

lemma file_url_served:
  "served_by api g \<Longrightarrow> file_url api path = gh_repo g @ S ''/contents/'' @ path"
  by (simp add: served_by_def file_url_def contents_endpoint_def)

lemma contents_path_served [simp]:
  "contents_path repo (repo @ S ''/contents/'' @ path) = Some path"
proof -
  have "starts_with ((repo @ S ''/contents/'') @ path) (repo @ S ''/contents/'')"
    by (rule starts_with_append)
  moreover have "drop (length (repo @ S ''/contents/'')) ((repo @ S ''/contents/'') @ path) = path"
    by (simp only: drop_append) simp
  ultimately show ?thesis
    by (simp add: contents_path_def)
qed

lemma fetch_get_served:
  assumes "served_by api g"
  shows "github_fetch parse (get_request P api path) g = (gh_get (file_url api path) path g, g)"
proof -
  have u: "req_url (get_request P api path) = file_url api path"
    by (simp add: get_request_def makeRequest_options_def file_url_def)
  have m: "req_method (get_request P api path) = S ''GET''"
    by (simp add: get_request_def makeRequest_options_def)
  have a: "req_auth (get_request P api path) = S ''token '' @ token api"
    by (simp add: get_request_def makeRequest_options_def)
  have n: "file_url api path \<noteq> gh_repo g"
    using file_url_served [OF assms, of path] by (simp add: S_def)
  have c: "contents_path (gh_repo g) (file_url api path) = Some path"
    using file_url_served [OF assms, of path] by simp
  have r: "gh_reachable g" "S ''token '' @ token api \<in> set (gh_credentials g)"
    using assms by (simp_all add: served_by_def)
  show ?thesis
    using r n by (simp add: github_fetch_def u m a c)
qed

lemma getFile_served:
  assumes "fetch P = github_fetch (JSON_parse P)" and "served_by api (network w)"
  shows "getFile P api path w
         = ((case gh_files (network w) (file_url api path) of
               None \<Rightarrow> Inr None
             | Some (c0, h0) \<Rightarrow>
                 (case atob P c0 of
                    Inl e \<Rightarrow> if includes_js (message e) (S ''404'') then Inr None else Inl e
                  | Inr d \<Rightarrow>
                      Inr (Some \<lparr>file_content = d, file_sha = Some (JString h0),
                                      file_path = Some (JString path)\<rparr>))),
            w\<lparr>requests := requests w @ [get_request P api path]\<rparr>)"
proof -
  have f: "fetch P (get_request P api path) (network w)
           = (gh_get (file_url api path) path (network w), network w)"
    using fetch_get_served [OF assms(2)] assms(1) by simp
  show ?thesis
  proof (cases "gh_files (network w) (file_url api path)")
    case None
    then show ?thesis
      using f
      by (simp add: getFile_def makeRequest_def get_request_def [symmetric] Let_def gh_get_def
            respond_def makeRequest_result_def ok_def decimal_404)
  next
    case (Some ch)
    obtain c0 h0 where ch: "ch = (c0, h0)" by (cases ch)
    show ?thesis
      using f Some ch
      by (simp add: getFile_def makeRequest_def get_request_def [symmetric] Let_def gh_get_def
            respond_def makeRequest_result_def ok_def split: sum.splits)
  qed
qed

lemma fetch_put_served:
  assumes "served_by api g"
    and "JSON_parse P (JSON_stringify P data 0) = Inr data"
    and "get_prop data (S ''branch'') = Some (JString (S ''main''))"
    and "truthy data"
  shows "github_fetch (JSON_parse P)
           (makeRequest_options P api (contents_endpoint api path) (S ''PUT'') (Some data)) g
         = gh_put (file_url api path) path data g"
proof -
  have n: "file_url api path \<noteq> gh_repo g"
    using file_url_served [OF assms(1), of path] by (simp add: S_def)
  have c: "contents_path (gh_repo g) (file_url api path) = Some path"
    using file_url_served [OF assms(1), of path] by simp
  have r: "gh_reachable g" "S ''token '' @ token api \<in> set (gh_credentials g)"
    using assms(1) by (simp_all add: served_by_def)
  show ?thesis
    using r assms(2-4)
    by (simp add: github_fetch_def makeRequest_options_def file_url_def [symmetric] c)
qed

lemma served_by_files [simp]:
  "served_by api (g\<lparr>gh_files := fs\<rparr>) = served_by api g"
  by (simp add: served_by_def)

lemma put_data_props [simp]:
  "get_prop (put_data msg enc file) (S ''branch'') = Some (JString (S ''main''))"
  "get_prop (put_data msg enc file) (S ''content'') = Some (JString enc)"
  "get_prop (put_data msg enc (Some (c0, h0))) (S ''sha'') = Some (JString h0)"
  "truthy (put_data msg enc file)"
  by (simp_all add: put_data_def)

lemma saveFile_served:
  assumes "fetch P = github_fetch (JSON_parse P)"
    and "served_by api (network w)"
    and "readable P (gh_files (network w) (file_url api path))"
    and "btoa P content = Inr enc"
    and "JSON_parse P (JSON_stringify P (put_data msg enc (gh_files (network w) (file_url api path))) 0)
         = Inr (put_data msg enc (gh_files (network w) (file_url api path)))"
  shows "\<exists>res w1. saveFile P api path content msg w = (Inr res, w1)
           \<and> network w1 = (network w)\<lparr>gh_files :=
                 (gh_files (network w))(file_url api path \<mapsto> (enc, blob_sha enc))\<rparr>"
proof (cases "gh_files (network w) (file_url api path)")
  case None
  have g: "getFile P api path w = (Inr None, w\<lparr>requests := requests w @ [get_request P api path]\<rparr>)"
    using getFile_served [OF assms(1,2), of path] None by simp
  have p: "github_fetch (JSON_parse P)
           (makeRequest_options P api (contents_endpoint api path) (S ''PUT'')
              (Some (put_data msg enc None))) (network w)
         = gh_put (file_url api path) path (put_data msg enc None) (network w)"
    using assms(5) None by (intro fetch_put_served [OF assms(2)]) simp_all
  show ?thesis
    using assms(1,4) None p
    by (simp add: saveFile_def g Let_def makeRequest_def put_data_def [symmetric, of _ _ None, simplified]
          gh_put_def respond_def makeRequest_result_def ok_def)
next
  case (Some ch)
  obtain c0 h0 where ch: "ch = (c0, h0)" by (cases ch)
  obtain d where d: "atob P c0 = Inr d" and h: "h0 \<noteq> []"
    using assms(3) Some ch by (cases "atob P c0") (simp_all add: readable_def)
  have g: "getFile P api path w
      = (Inr (Some \<lparr>file_content = d, file_sha = Some (JString h0), file_path = Some (JString path)\<rparr>),
         w\<lparr>requests := requests w @ [get_request P api path]\<rparr>)"
    using getFile_served [OF assms(1,2), of path] Some ch d by simp
  have p: "github_fetch (JSON_parse P)
           (makeRequest_options P api (contents_endpoint api path) (S ''PUT'')
              (Some (put_data msg enc (Some (c0, h0))))) (network w)
         = gh_put (file_url api path) path (put_data msg enc (Some (c0, h0))) (network w)"
    using assms(5) Some ch by (intro fetch_put_served [OF assms(2)]) simp_all
  have pd: "JObject [(S ''message'', JString msg), (S ''content'', JString enc),
               (S ''branch'', JString (S ''main'')), (S ''sha'', JString h0)]
            = put_data msg enc (Some (c0, h0))"
    by (simp add: put_data_def)
  show ?thesis
    using assms(1,4) Some ch p h
    by (simp add: saveFile_def g Let_def makeRequest_def pd
          gh_put_def respond_def makeRequest_result_def ok_def)
qed

lemma remote_document_roundtrip:
  assumes "remote_keeps P api w path msg v"
  shows "case api_save_document P api path v msg w of
           (r, w1) \<Rightarrow> r = Inr True \<and> fst (api_get_document P api path dflt w1) = Inr v"
proof -
  have f: "fetch P = github_fetch (JSON_parse P)" and s: "served_by api (network w)"
    and rd: "readable P (gh_files (network w) (file_url api path))"
    and pv: "JSON_parse P (JSON_stringify P v 2) = Inr v"
    using assms by (simp_all add: remote_keeps_def)
  obtain enc where b: "btoa P (JSON_stringify P v 2) = Inr enc"
    and a: "atob P enc = Inr (JSON_stringify P v 2)"
    and pd: "JSON_parse P (JSON_stringify P (put_data msg enc (gh_files (network w) (file_url api path))) 0)
         = Inr (put_data msg enc (gh_files (network w) (file_url api path)))"
    using assms by (cases "btoa P (JSON_stringify P v 2)") (simp_all add: remote_keeps_def)
  obtain res w1 where sv: "saveFile P api path (JSON_stringify P v 2) msg w = (Inr res, w1)"
    and n: "network w1 = (network w)\<lparr>gh_files :=
                 (gh_files (network w))(file_url api path \<mapsto> (enc, blob_sha enc))\<rparr>"
    using saveFile_served [OF f s rd b pd] by blast
  have s1: "served_by api (network w1)" using s n by simp
  have "fst (getFile P api path w1)
        = Inr (Some \<lparr>file_content = JSON_stringify P v 2, file_sha = Some (JString (blob_sha enc)),
                        file_path = Some (JString path)\<rparr>)"
    using getFile_served [OF f s1, of path] n a by simp
  then have "fst (api_get_document P api path dflt w1) = Inr v"
    using pv by (auto simp: api_get_document_def split: prod.splits)
  then show ?thesis
    by (simp add: api_save_document_def sv)
qed

lemma on_api_Some:
  "githubApi this = Some api \<Longrightarrow> on_api this m f w = (fst (f api w), this, snd (f api w))"
  by (simp add: on_api_def split: prod.splits)

lemma ensureInitialized_done [simp]:
  "remote_selected this api \<Longrightarrow> ensureInitialized P this w = (this, w)"
  by (simp add: remote_selected_def ensureInitialized_def)

lemma remote_news_roundtrip:
  assumes "remote_selected this api"
    and "remote_keeps P api w (S ''news.json'') (S ''Update news items'') v"
  shows "case saveNewsItems P this v w of
           (r, this1, w1) \<Rightarrow> r = Inr True \<and> fst (getNewsItems P this1 w1) = Inr v"
  using remote_document_roundtrip [OF assms(2), of "JArray []"] assms(1)
  by (simp add: saveNewsItems_def getNewsItems_def api_saveNewsItems_def api_getNewsItems_def
        on_api_Some remote_selected_def ensureInitialized_def split: prod.splits)

lemma remote_site_roundtrip:
  assumes "remote_selected this api"
    and "remote_keeps P api w (S ''settings.json'') (S ''Update site settings'') v"
  shows "case saveSiteSettings P this v w of
           (r, this1, w1) \<Rightarrow> r = Inr True \<and> fst (getSiteSettings P this1 w1) = Inr v"
  using remote_document_roundtrip [OF assms(2), of "JObject []"] assms(1)
  by (simp add: saveSiteSettings_def getSiteSettings_def api_saveSiteSettings_def
        api_getSiteSettings_def on_api_Some remote_selected_def ensureInitialized_def
        split: prod.splits)

lemma remote_social_roundtrip:
  assumes "remote_selected this api"
    and "remote_keeps P api w (S ''social.json'') (S ''Update social media links'') v"
  shows "case saveSocialLinks P this v w of
           (r, this1, w1) \<Rightarrow> r = Inr True \<and> fst (getSocialLinks P this1 w1) = Inr v"
  using remote_document_roundtrip [OF assms(2), of default_social_links] assms(1)
  by (simp add: saveSocialLinks_def getSocialLinks_def api_saveSocialLinks_def
        api_getSocialLinks_def on_api_Some remote_selected_def ensureInitialized_def
        split: prod.splits)

lemma remote_admin_roundtrip:
  assumes "remote_selected this api"
    and "remote_keeps P api w (S ''admin.json'') (S ''Update admin settings'') v"
  shows "case saveAdminSettings P this v w of
           (r, this1, w1) \<Rightarrow> r = Inr True \<and> fst (getAdminSettings P this1 w1) = Inr v"
  using remote_document_roundtrip [OF assms(2), of default_admin_settings] assms(1)
  by (simp add: saveAdminSettings_def getAdminSettings_def api_saveAdminSettings_def
        api_getAdminSettings_def on_api_Some remote_selected_def ensureInitialized_def
        split: prod.splits)

text \<open>
  Claim C2, amended. Saving and then reading gives the value back: on the local backend,
  for the news items and the social links when the value is truthy and the platform's
  JSON codec gives it back, and for the site settings and the admin settings when every
  field is a non-empty string; on the remote backend, for all four kinds, under the
  conditions \<open>remote_keeps\<close> (in which case the save also reports success).
\<close>

theorem save_then_get:
  fixes P :: "github platform"
  shows
  "(\<not> useGitHub (fst (ensureInitialized P this w)) \<and> truthy v
      \<and> JSON_parse P (JSON_stringify P v 0) = Inr v \<longrightarrow>
      (case saveNewsItems P this v w of
         (r, this1, w1) \<Rightarrow> r = Inr True \<and> fst (getNewsItems P this1 w1) = Inr v)
      \<and> (case saveSocialLinks P this v w of
         (r, this1, w1) \<Rightarrow> r = Inr True \<and> fst (getSocialLinks P this1 w1) = Inr v))
   \<and> (\<not> useGitHub (fst (ensureInitialized P this w)) \<and> title \<noteq> [] \<and> header \<noteq> [] \<longrightarrow>
      (case saveSiteSettings P this (site_settings title header) w of
         (r, this1, w1) \<Rightarrow>
           r = Inr True \<and> fst (getSiteSettings P this1 w1) = Inr (site_settings title header)))
   \<and> (\<not> useGitHub (fst (ensureInitialized P this w)) \<and> code \<noteq> [] \<longrightarrow>
      (case saveAdminSettings P this (admin_settings code) w of
         (r, this1, w1) \<Rightarrow>
           r = Inr True \<and> fst (getAdminSettings P this1 w1) = Inr (admin_settings code)))
   \<and> (remote_selected this api
        \<and> remote_keeps P api w (S ''news.json'') (S ''Update news items'') v \<longrightarrow>
      (case saveNewsItems P this v w of
         (r, this1, w1) \<Rightarrow> r = Inr True \<and> fst (getNewsItems P this1 w1) = Inr v))
   \<and> (remote_selected this api
        \<and> remote_keeps P api w (S ''settings.json'') (S ''Update site settings'') v \<longrightarrow>
      (case saveSiteSettings P this v w of
         (r, this1, w1) \<Rightarrow> r = Inr True \<and> fst (getSiteSettings P this1 w1) = Inr v))
   \<and> (remote_selected this api
        \<and> remote_keeps P api w (S ''social.json'') (S ''Update social media links'') v \<longrightarrow>
      (case saveSocialLinks P this v w of
         (r, this1, w1) \<Rightarrow> r = Inr True \<and> fst (getSocialLinks P this1 w1) = Inr v))
   \<and> (remote_selected this api
        \<and> remote_keeps P api w (S ''admin.json'') (S ''Update admin settings'') v \<longrightarrow>
      (case saveAdminSettings P this v w of
         (r, this1, w1) \<Rightarrow> r = Inr True \<and> fst (getAdminSettings P this1 w1) = Inr v))"
  by (intro conjI impI; elim conjE;
      (rule local_news_roundtrip local_social_roundtrip local_site_roundtrip
         local_admin_roundtrip remote_news_roundtrip remote_site_roundtrip
         remote_social_roundtrip remote_admin_roundtrip; assumption))

lemma replicate_2 [simp]: "replicate 2 x = [x, x]"
  by (simp add: numeral_2_eq_2)

lemmas codec_eval =
  JSON_stringify_ref_def quote_def is_high_def is_low_def escape_short_def S_def
  JSON_parse_ref_def skip_ws_def is_ws_def cons_fst_def unescape_def obj_put_def
  btoa_ref_def b64_char_def b64_alphabet_def atob_ref_def strip_padding_def

lemmas example_eval =
  remote_keeps_def browser_def served_by_def readable_def file_url_def contents_endpoint_def
  example_world_def example_remote_def example_api_def put_data_def

lemma example_news_truthy: "truthy example_news"
  by (simp add: example_news_def)

lemma example_news_codec:
  "JSON_parse browser (JSON_stringify browser example_news 0) = Inr example_news"
  by (simp add: example_news_def browser_def codec_eval)

lemma example_manager_remote: "remote_selected example_manager example_api"
  by (simp add: remote_selected_def example_manager_def)

lemma example_keeps_news:
  "remote_keeps browser example_api example_world (S ''news.json'') (S ''Update news items'')
     example_news"
  by (simp add: example_news_def example_eval codec_eval)

lemma example_keeps_site:
  "remote_keeps browser example_api example_world (S ''settings.json'') (S ''Update site settings'')
     (site_settings (S ''T'') (S ''H''))"
  by (simp add: site_settings_def example_eval codec_eval)

lemma example_keeps_social:
  "remote_keeps browser example_api example_world (S ''social.json'')
     (S ''Update social media links'') example_links"
  by (simp add: example_links_def example_eval codec_eval)

lemma example_keeps_admin:
  "remote_keeps browser example_api example_world (S ''admin.json'') (S ''Update admin settings'')
     (admin_settings (S ''1''))"
  by (simp add: admin_settings_def example_eval codec_eval)

theorem save_then_get_witness:
  "\<not> useGitHub (fst (ensureInitialized browser DataManager_new (example_world\<lparr>GITHUB_CONFIG := None\<rparr>)))
   \<and> truthy example_news
   \<and> JSON_parse browser (JSON_stringify browser example_news 0) = Inr example_news
   \<and> (case saveNewsItems browser DataManager_new example_news (example_world\<lparr>GITHUB_CONFIG := None\<rparr>) of
         (r, this1, w1) \<Rightarrow> r = Inr True \<and> fst (getNewsItems browser this1 w1) = Inr example_news)
   \<and> (case saveSocialLinks browser DataManager_new example_news (example_world\<lparr>GITHUB_CONFIG := None\<rparr>) of
         (r, this1, w1) \<Rightarrow> r = Inr True \<and> fst (getSocialLinks browser this1 w1) = Inr example_news)
   \<and> (case saveSiteSettings browser DataManager_new (site_settings (S ''T'') (S ''H'')) (example_world\<lparr>GITHUB_CONFIG := None\<rparr>) of
         (r, this1, w1) \<Rightarrow> r = Inr True \<and> fst (getSiteSettings browser this1 w1) = Inr (site_settings (S ''T'') (S ''H'')))
   \<and> (case saveAdminSettings browser DataManager_new (admin_settings (S ''1'')) (example_world\<lparr>GITHUB_CONFIG := None\<rparr>) of
         (r, this1, w1) \<Rightarrow> r = Inr True \<and> fst (getAdminSettings browser this1 w1) = Inr (admin_settings (S ''1'')))
   \<and> remote_selected example_manager example_api
   \<and> remote_keeps browser example_api example_world (S ''news.json'') (S ''Update news items'') example_news
   \<and> (case saveNewsItems browser example_manager example_news example_world of
         (r, this1, w1) \<Rightarrow> r = Inr True \<and> fst (getNewsItems browser this1 w1) = Inr example_news)
   \<and> remote_keeps browser example_api example_world (S ''settings.json'') (S ''Update site settings'') (site_settings (S ''T'') (S ''H''))
   \<and> (case saveSiteSettings browser example_manager (site_settings (S ''T'') (S ''H'')) example_world of
         (r, this1, w1) \<Rightarrow> r = Inr True \<and> fst (getSiteSettings browser this1 w1) = Inr (site_settings (S ''T'') (S ''H'')))
   \<and> remote_keeps browser example_api example_world (S ''social.json'') (S ''Update social media links'') example_links
   \<and> (case saveSocialLinks browser example_manager example_links example_world of
         (r, this1, w1) \<Rightarrow> r = Inr True \<and> fst (getSocialLinks browser this1 w1) = Inr example_links)
   \<and> remote_keeps browser example_api example_world (S ''admin.json'') (S ''Update admin settings'') (admin_settings (S ''1''))
   \<and> (case saveAdminSettings browser example_manager (admin_settings (S ''1'')) example_world of
         (r, this1, w1) \<Rightarrow> r = Inr True \<and> fst (getAdminSettings browser this1 w1) = Inr (admin_settings (S ''1'')))"
  using
    save_then_get [where P = browser and this = DataManager_new and w = "example_world\<lparr>GITHUB_CONFIG := None\<rparr>"
      and v = example_news and title = "S ''T''" and header = "S ''H''" and code = "S ''1''"]
    save_then_get [where P = browser and this = example_manager and w = example_world
      and v = example_news and api = example_api]
    save_then_get [where P = browser and this = example_manager and w = example_world
      and v = "site_settings (S ''T'') (S ''H'')" and api = example_api]
    save_then_get [where P = browser and this = example_manager and w = example_world
      and v = example_links and api = example_api]
    save_then_get [where P = browser and this = example_manager and w = example_world
      and v = "admin_settings (S ''1'')" and api = example_api]
    local_example example_news_truthy example_news_codec example_manager_remote
    example_keeps_news example_keeps_site example_keeps_social example_keeps_admin
  by simp

text \<open>
  On the remote backend the default news header cannot be saved: it has code units
  beyond Latin-1, \<open>btoa\<close> throws, the save reports \<open>false\<close> and nothing is written.
\<close>

lemma example_served: "served_by example_api (network example_world)"
  by (simp add: served_by_def example_world_def example_remote_def example_api_def S_append)

lemma browser_fetch: "fetch browser = github_fetch (JSON_parse browser)"
  by (simp add: browser_def)

lemma default_header_btoa:
  "btoa browser (JSON_stringify browser (site_settings (S ''NOARZ'') default_newsHeader) 2)
     = Inl invalid_character"
  by (simp add: site_settings_def default_newsHeader_def browser_def codec_eval)

lemma remote_default_header_not_saved:
  "fst (saveSiteSettings browser example_manager (site_settings (S ''NOARZ'') default_newsHeader)
          example_world) = Inr False
   \<and> fst (getSiteSettings browser example_manager
          (snd (snd (saveSiteSettings browser example_manager
             (site_settings (S ''NOARZ'') default_newsHeader) example_world))))
       = Inr (JObject [])"
proof -
  let ?v = "site_settings (S ''NOARZ'') default_newsHeader"
  let ?w1 = "example_world\<lparr>requests := requests example_world
               @ [get_request browser example_api (S ''settings.json'')]\<rparr>"
  have absent: "gh_files (network example_world) (file_url example_api (S ''settings.json'')) = None"
    by (simp add: example_world_def example_remote_def)
  have g: "getFile browser example_api (S ''settings.json'') example_world = (Inr None, ?w1)"
    using getFile_served [OF browser_fetch example_served, of "S ''settings.json''"] absent
    by simp
  have sv: "api_save_document browser example_api (S ''settings.json'') ?v
              (S ''Update site settings'') example_world = (Inr False, ?w1)"
    by (simp add: api_save_document_def saveFile_def g default_header_btoa)
  have s1: "served_by example_api (network ?w1)"
    using example_served by simp
  have absent1: "gh_files (network ?w1) (file_url example_api (S ''settings.json'')) = None"
    using absent by simp
  have g1: "fst (getFile browser example_api (S ''settings.json'') ?w1) = Inr None"
    using getFile_served [OF browser_fetch s1, of "S ''settings.json''"] absent1
    by simp
  have gt: "fst (api_get_document browser example_api (S ''settings.json'') (JObject []) ?w1)
            = Inr (JObject [])"
    using g1 by (auto simp: api_get_document_def split: prod.splits)
  have m: "remote_selected example_manager example_api"
    by (simp add: remote_selected_def example_manager_def)
  have ga: "githubApi example_manager = Some example_api" "useGitHub example_manager"
    by (simp_all add: example_manager_def)
  have 1: "saveSiteSettings browser example_manager ?v example_world
           = (Inr False, example_manager, ?w1)"
    using ga by (simp add: saveSiteSettings_def ensureInitialized_done [OF m] on_api_Some
          api_saveSiteSettings_def sv)
  have 2: "fst (getSiteSettings browser example_manager ?w1) = Inr (JObject [])"
    using ga gt by (simp add: getSiteSettings_def ensureInitialized_done [OF m] on_api_Some
          api_getSiteSettings_def)
  show ?thesis
    using 1 2 by simp
qed

end
